theory Spec2Isabelle
  imports Complex_Main "HOL-Library.Sublist" "HOL-Library.AList"
begin

section \<open>Python values\<close>

text \<open>
  The program is dynamically typed Python: dictionaries whose values are strings, numbers,
  booleans, \<open>None\<close>, lists or further dictionaries. A value is a term of \<open>pyval\<close>. A
  dictionary is an association list in insertion order (\<open>map_of\<close> reads it,
  \<open>AList.update\<close> writes it: an existing key keeps its place, a new key goes last).

  Floating-point numbers are kept abstract: the type \<open>'f\<close> is the type of floats, and
  every operation of the interpreter on floats that the program uses is a field of the
  record \<open>builtins\<close>. Every theorem below holds for all such operations, so in
  particular for IEEE doubles with their rounding, infinities and NaN.

  An exception is a value of \<open>exn\<close>, and a function that may raise returns
  \<open>exn + 'a\<close>. All of them derive from \<open>Exception\<close>, so \<open>except Exception\<close>
  catches each; \<open>ToolFailure\<close> stands for whatever else a tool raises.

  A string is the list of the bytes of its UTF-8 encoding, so a character beyond ASCII
  is two to four bytes.
\<close>

datatype exn =
    AttributeError
  | TypeError
  | ValueError
  | KeyError
  | IndexError
  | RuntimeError
  | OverflowError
  | OSError
  | ToolFailure string

datatype 'f pyval =
    PNone
  | PBool bool
  | PInt int
  | PFloat 'f
  | PStr string
  | PList "'f pyval list"
  | PDict "(string \<times> 'f pyval) list"

type_synonym 'f dict = "(string \<times> 'f pyval) list"

record 'f builtins =
  float_of_int :: "int \<Rightarrow> exn + 'f"
  float_of_str :: "string \<Rightarrow> 'f option"
  float_lit :: "rat \<Rightarrow> 'f"
  float_truthy :: "'f \<Rightarrow> bool"
  fsum :: "'f list \<Rightarrow> 'f"
  fdiv_int :: "'f \<Rightarrow> int \<Rightarrow> 'f"
  fmul :: "'f \<Rightarrow> 'f \<Rightarrow> 'f"
  fgt :: "'f \<Rightarrow> 'f \<Rightarrow> bool"
  flt :: "'f \<Rightarrow> 'f \<Rightarrow> bool"
  fgt_int :: "'f \<Rightarrow> int \<Rightarrow> bool"
  int_of_float :: "'f \<Rightarrow> exn + int"
  int_of_str :: "string \<Rightarrow> int option"
  format :: "'f pyval \<Rightarrow> string"

text \<open>
  \<open>float_of_int\<close> is \<open>float(i)\<close> on an integer, which raises on one that is too
  large, and \<open>float_of_str\<close> is \<open>float(s)\<close> on a string, \<open>None\<close> when it raises
  \<open>ValueError\<close>. \<open>float_lit q\<close> is the float that the decimal literal \<open>q\<close>
  denotes. \<open>float_truthy x\<close> is \<open>bool(x)\<close>, false exactly for a zero. \<open>fsum\<close> is
  \<open>sum\<close> on a non-empty list of floats, \<open>fdiv_int x n\<close> is \<open>x / n\<close> for an integer
  \<open>n\<close>, \<open>fmul\<close> is the product, \<open>fgt\<close> and \<open>flt\<close> are the strict comparisons of
  floats, and \<open>fgt_int x n\<close> is \<open>x > n\<close> for an integer \<open>n\<close>. \<open>int_of_float\<close> is
  \<open>int(x)\<close>, and \<open>int_of_str\<close> is \<open>int(s)\<close>, \<open>None\<close> when it raises
  \<open>ValueError\<close>. \<open>format v\<close> is what an f-string field renders for \<open>v\<close>.
\<close>

text \<open>\<open>d.get(k)\<close> and \<open>d.get(k, default)\<close>.\<close>

definition dict_get :: "'f dict \<Rightarrow> string \<Rightarrow> 'f pyval" where
  "dict_get d k = (case map_of d k of None \<Rightarrow> PNone | Some v \<Rightarrow> v)"

definition dict_get_default :: "'f dict \<Rightarrow> string \<Rightarrow> 'f pyval \<Rightarrow> 'f pyval" where
  "dict_get_default d k dflt = (case map_of d k of None \<Rightarrow> dflt | Some v \<Rightarrow> v)"

text \<open>\<open>v[k]\<close> for a string key: only a dictionary holding the key answers.\<close>

fun subscript :: "'f pyval \<Rightarrow> string \<Rightarrow> exn + 'f pyval" where
  "subscript (PDict d) k = (case map_of d k of None \<Rightarrow> Inl KeyError | Some v \<Rightarrow> Inr v)"
| "subscript _ k = Inl TypeError"

text \<open>Truth value testing (\<open>if v\<close>, \<open>a and b\<close>, \<open>a or b\<close>).\<close>

fun py_truthy :: "'f builtins \<Rightarrow> 'f pyval \<Rightarrow> bool" where
  "py_truthy ops PNone = False"
| "py_truthy ops (PBool b) = b"
| "py_truthy ops (PInt i) = (i \<noteq> 0)"
| "py_truthy ops (PFloat x) = float_truthy ops x"
| "py_truthy ops (PStr s) = (s \<noteq> [])"
| "py_truthy ops (PList vs) = (vs \<noteq> [])"
| "py_truthy ops (PDict d) = (d \<noteq> [])"

text \<open>The constructors \<open>float(v)\<close> and \<open>int(v)\<close>.\<close>

fun py_float :: "'f builtins \<Rightarrow> 'f pyval \<Rightarrow> exn + 'f" where
  "py_float ops PNone = Inl TypeError"
| "py_float ops (PBool b) = float_of_int ops (if b then 1 else 0)"
| "py_float ops (PInt i) = float_of_int ops i"
| "py_float ops (PFloat x) = Inr x"
| "py_float ops (PStr s) =
     (case float_of_str ops s of None \<Rightarrow> Inl ValueError | Some x \<Rightarrow> Inr x)"
| "py_float ops (PList vs) = Inl TypeError"
| "py_float ops (PDict d) = Inl TypeError"

fun py_int :: "'f builtins \<Rightarrow> 'f pyval \<Rightarrow> exn + int" where
  "py_int ops PNone = Inl TypeError"
| "py_int ops (PBool b) = Inr (if b then 1 else 0)"
| "py_int ops (PInt i) = Inr i"
| "py_int ops (PFloat x) = int_of_float ops x"
| "py_int ops (PStr s) =
     (case int_of_str ops s of None \<Rightarrow> Inl ValueError | Some i \<Rightarrow> Inr i)"
| "py_int ops (PList vs) = Inl TypeError"
| "py_int ops (PDict d) = Inl TypeError"

section \<open>Strings\<close>

text \<open>
  \<open>str_lower\<close> folds the ASCII letters \<open>A\<close> to \<open>Z\<close> and leaves every other byte. It
  stands for \<open>str.lower()\<close> in two places only. One is the search for an ASCII keyword
  in a lowered text (\<open>"pm2.5" in snippet.lower()\<close>, and \<open>poor\<close> and \<open>avoid\<close> in the
  lowered summary): Python's lowering turns no character but an ASCII capital into one
  of the letters of these keywords in a place where they would match, and the bytes of a
  character beyond ASCII equal none of them, so the search gives the same answer on the
  folded bytes. The other is text that is ASCII throughout, where the two agree. Where
  the program compares two lowered strings for equality, the lowering is an argument.
\<close>

definition upper_letters :: string where
  "upper_letters = ''ABCDEFGHIJKLMNOPQRSTUVWXYZ''"

definition lower_letters :: string where
  "lower_letters = ''abcdefghijklmnopqrstuvwxyz''"

definition lower_char :: "char \<Rightarrow> char" where
  "lower_char c =
     (case map_of (zip upper_letters lower_letters) c of None \<Rightarrow> c | Some l \<Rightarrow> l)"

definition str_lower :: "string \<Rightarrow> string" where
  "str_lower s = map lower_char s"

text \<open>
  The separators of \<open>str.split()\<close> are the 29 characters for which \<open>str.isspace()\<close>
  holds, here in UTF-8: the ASCII ones \<open>0x09\<close> to \<open>0x0D\<close>, \<open>0x1C\<close> to \<open>0x1F\<close> and
  \<open>0x20\<close>, then U+0085, U+00A0, U+1680, U+2000 to U+200A, U+2028, U+2029, U+202F,
  U+205F and U+3000. No encoding in the list begins another one, and none begins with a
  continuation byte, so looking for one of them at each byte of an encoded string finds
  the separators and nothing else.
\<close>

definition space_seqs :: "string list" where
  "space_seqs =
     [[CHR 0x09], [CHR 0x0A], [CHR 0x0B], [CHR 0x0C], [CHR 0x0D],
      [CHR 0x1C], [CHR 0x1D], [CHR 0x1E], [CHR 0x1F], [CHR 0x20],
      [CHR 0xC2, CHR 0x85], [CHR 0xC2, CHR 0xA0],
      [CHR 0xE1, CHR 0x9A, CHR 0x80],
      [CHR 0xE2, CHR 0x80, CHR 0x80], [CHR 0xE2, CHR 0x80, CHR 0x81],
      [CHR 0xE2, CHR 0x80, CHR 0x82], [CHR 0xE2, CHR 0x80, CHR 0x83],
      [CHR 0xE2, CHR 0x80, CHR 0x84], [CHR 0xE2, CHR 0x80, CHR 0x85],
      [CHR 0xE2, CHR 0x80, CHR 0x86], [CHR 0xE2, CHR 0x80, CHR 0x87],
      [CHR 0xE2, CHR 0x80, CHR 0x88], [CHR 0xE2, CHR 0x80, CHR 0x89],
      [CHR 0xE2, CHR 0x80, CHR 0x8A],
      [CHR 0xE2, CHR 0x80, CHR 0xA8], [CHR 0xE2, CHR 0x80, CHR 0xA9],
      [CHR 0xE2, CHR 0x80, CHR 0xAF],
      [CHR 0xE2, CHR 0x81, CHR 0x9F],
      [CHR 0xE3, CHR 0x80, CHR 0x80]]"

text \<open>\<open>strip_space s\<close> is what follows the separator that \<open>s\<close> begins with, if any.\<close>

definition strip_space :: "string \<Rightarrow> string option" where
  "strip_space s =
     (case find (\<lambda>w. prefix w s) space_seqs of
        None \<Rightarrow> None
      | Some w \<Rightarrow> Some (drop (length w) s))"

text \<open>
  \<open>s.split()\<close>: the maximal runs of characters that are not separators. \<open>cur\<close> is the
  token being read.
\<close>

function split_from :: "string \<Rightarrow> string \<Rightarrow> string list" where
  "split_from cur [] = (if cur = [] then [] else [cur])"
| "split_from cur (c # cs) =
     (case strip_space (c # cs) of
        None \<Rightarrow> split_from (cur @ [c]) cs
      | Some rest \<Rightarrow> (if cur = [] then split_from [] rest else cur # split_from [] rest))"
  by pat_completeness auto
termination
proof -
  have shorter: "length rest < length s" if "strip_space s = Some rest" for s rest
  proof -
    from that obtain w where w: "find (\<lambda>w. prefix w s) space_seqs = Some w"
      and rest: "rest = drop (length w) s"
      by (auto simp: strip_space_def split: option.splits)
    from w have "w \<in> set space_seqs" and "prefix w s"
      by (auto simp: find_Some_iff)
    then have "w \<noteq> []" and "length w \<le> length s"
      by (auto simp: space_seqs_def prefix_length_le)
    then show ?thesis
      by (cases w) (simp_all add: rest)
  qed
  show ?thesis
    by (relation "measure (\<lambda>(cur, s). length s)") (auto dest: shorter)
qed

definition py_split :: "string \<Rightarrow> string list" where
  "py_split s = split_from [] s"

text \<open>The micro sign and the em dash of the program's literals, in UTF-8.\<close>

definition micro :: string where
  "micro = [CHR 0xC2, CHR 0xB5]"

definition emdash :: string where
  "emdash = [CHR 0xE2, CHR 0x80, CHR 0x94]"

section \<open>tools.py\<close>

text \<open>
  \<open>GoogleSearchTool.run\<close>. \<open>now\<close> is what \<open>datetime.utcnow().isoformat()\<close> returns at
  the call. Indexing the token list at 0 raises \<open>IndexError\<close> when there is no token.
\<close>

definition GoogleSearchTool_run :: "string \<Rightarrow> string \<Rightarrow> exn + 'f pyval" where
  "GoogleSearchTool_run now query =
     (case py_split query of
        [] \<Rightarrow> Inl IndexError
      | tok # _ \<Rightarrow>
          Inr (PDict
            [(''query'', PStr query),
             (''timestamp'', PStr now),
             (''result_snippet'',
                PStr (''AQI '' @ tok @ '': 128 (Unhealthy for sensitive groups). PM2.5: 86 ''
                      @ micro @ ''g/m3. Source: example.com'')),
             (''raw_html'', PStr ''<html>...</html>'')]))"

text \<open>
  \<open>CSVLoaderTool.run\<close>. The tool object holds the path; \<open>path_str\<close> is
  \<open>str(self.csv_path)\<close>, the path as \<open>pathlib\<close> renders it. The file system is the
  argument \<open>file\<close>: \<open>Missing\<close> when the path does not exist, \<open>Unreadable e\<close> when it
  exists and opening or reading it raises \<open>e\<close>, and otherwise the rows that
  \<open>list(csv.DictReader(f))\<close> yields, each a dictionary from column names to values.
  The reader fills the columns a short line lacks with \<open>None\<close>, so a value is a string
  or \<open>None\<close>. \<open>lower\<close> is \<open>str.lower\<close>, the lowering of Unicode text. The loop calls
  it on each row's location, and only a string has it.
\<close>

datatype 'f csv_file = Missing | Unreadable exn | Readable "'f dict list"

fun csv_scan ::
  "(string \<Rightarrow> string) \<Rightarrow> string \<Rightarrow> 'f dict list \<Rightarrow> 'f dict option \<Rightarrow> exn + 'f dict option" where
  "csv_scan lower location [] latest = Inr latest"
| "csv_scan lower location (row # rows) latest =
     (case dict_get_default row ''location'' (PStr '''') of
        PStr s \<Rightarrow>
          csv_scan lower location rows
            (if lower s = lower location then Some row else latest)
      | _ \<Rightarrow> Inl AttributeError)"

definition CSVLoaderTool_run ::
  "(string \<Rightarrow> string) \<Rightarrow> string \<Rightarrow> 'f csv_file \<Rightarrow> string \<Rightarrow> exn + 'f pyval" where
  "CSVLoaderTool_run lower path_str file location =
     (case file of
        Missing \<Rightarrow>
          Inr (PDict [(''error'', PStr ''sample data missing''), (''path'', PStr path_str)])
      | Unreadable e \<Rightarrow> Inl e
      | Readable rows \<Rightarrow>
          (case csv_scan lower location rows None of
             Inl e \<Rightarrow> Inl e
           | Inr None \<Rightarrow> Inr (PDict [(''error'', PStr ''no data for location'')])
           | Inr (Some row) \<Rightarrow>
               if row \<noteq> [] then Inr (PDict row)
               else Inr (PDict [(''error'', PStr ''no data for location'')])))"

section \<open>apia\_agent.py\<close>

text \<open>
  \<open>parse_search_snippet\<close>. \<open>sub in s\<close> on strings is \<open>sublist sub s\<close>. A snippet that
  is not a string has no \<open>lower\<close>: the exception is caught and the result is empty.
\<close>

definition parse_search_snippet :: "'f builtins \<Rightarrow> 'f pyval \<Rightarrow> 'f dict" where
  "parse_search_snippet ops snippet =
     (case snippet of
        PStr s \<Rightarrow>
          (let lowered = str_lower s in
           if sublist ''pm2.5'' lowered \<or> sublist ''pm2.5'' s
              \<or> sublist ''pm2.5'' (str_lower s) \<or> sublist ''pm2.5'' s
           then
             (if sublist ''86'' s
              then [(''pm25'', PFloat (float_lit ops 86)),
                    (''pm10'', PFloat (float_lit ops 150)),
                    (''aqi'', PInt 128)]
              else [(''pm25'', PFloat (float_lit ops 55)),
                    (''pm10'', PFloat (float_lit ops 90)),
                    (''aqi'', PInt 80)])
           else [])
      | _ \<Rightarrow> [])"

text \<open>
  \<open>Agent.call_tool\<close>: the tools are a dictionary from names to objects with a
  \<open>run\<close> method; a name that is not there raises \<open>RuntimeError\<close>. A tool is the
  function its \<open>run\<close> computes, an exception it raises being the \<open>Inl\<close> result. The
  logger only prints and is left out.
\<close>

type_synonym 'f tool = "string \<Rightarrow> exn + 'f pyval"

definition call_tool :: "(string \<rightharpoonup> 'f tool) \<Rightarrow> string \<Rightarrow> string \<Rightarrow> exn + 'f pyval" where
  "call_tool tools tool_name arg =
     (case tools tool_name of None \<Rightarrow> Inl RuntimeError | Some tool \<Rightarrow> tool arg)"

text \<open>
  \<open>DataAgent.fetch\<close>, in two parts. \<open>fetch_search\<close> is the body of the \<open>try\<close>
  block: it returns the tagged reading, or the exception that sends control to the
  handler (\<open>ValueError\<close> is the \<open>raise ValueError("Parsing failed")\<close> of the source;
  a search result that is not a dictionary has no \<open>get\<close>).
\<close>

definition fetch_search ::
  "'f builtins \<Rightarrow> (string \<rightharpoonup> 'f tool) \<Rightarrow> string \<Rightarrow> string \<Rightarrow> exn + 'f dict" where
  "fetch_search ops tools now location =
     (case call_tool tools ''google_search'' (location @ '' AQI today'') of
        Inl e \<Rightarrow> Inl e
      | Inr (PDict res) \<Rightarrow>
          (let parsed = parse_search_snippet ops
                          (dict_get_default res ''result_snippet'' (PStr ''''))
           in if parsed \<noteq> []
              then Inr (AList.update ''timestamp''
                          (if py_truthy ops (dict_get res ''timestamp'')
                           then dict_get res ''timestamp'' else PStr now)
                          (AList.update ''source'' (PStr ''google_search'') parsed))
              else Inl ValueError)
      | Inr _ \<Rightarrow> Inl AttributeError)"

text \<open>
  \<open>fetch_csv\<close> is the handler. The test
  \<open>isinstance(csv_res, dict) and csv_res.get("error")\<close> is \<open>is_error_record\<close>. The
  dictionary display evaluates its entries in order, so the first failing subscript or
  coercion is the exception that leaves \<open>fetch\<close>: nothing catches it.
\<close>

definition is_error_record :: "'f builtins \<Rightarrow> 'f pyval \<Rightarrow> bool" where
  "is_error_record ops v =
     (case v of PDict d \<Rightarrow> py_truthy ops (dict_get d ''error'') | _ \<Rightarrow> False)"

definition method_get :: "'f pyval \<Rightarrow> string \<Rightarrow> 'f pyval \<Rightarrow> exn + 'f pyval" where
  "method_get v k dflt =
     (case v of PDict d \<Rightarrow> Inr (dict_get_default d k dflt) | _ \<Rightarrow> Inl AttributeError)"

definition fetch_csv ::
  "'f builtins \<Rightarrow> (string \<rightharpoonup> 'f tool) \<Rightarrow> string \<Rightarrow> exn + 'f dict" where
  "fetch_csv ops tools location =
     (case call_tool tools ''csv_loader'' location of
        Inl e \<Rightarrow> Inl e
      | Inr csv_res \<Rightarrow>
          if is_error_record ops csv_res
          then Inr [(''error'', PStr ''no data available'')]
          else
            (case subscript csv_res ''pm25'' of Inl e \<Rightarrow> Inl e | Inr a \<Rightarrow>
            (case py_float ops a of Inl e \<Rightarrow> Inl e | Inr pm25 \<Rightarrow>
            (case subscript csv_res ''pm10'' of Inl e \<Rightarrow> Inl e | Inr b \<Rightarrow>
            (case py_float ops b of Inl e \<Rightarrow> Inl e | Inr pm10 \<Rightarrow>
            (case method_get csv_res ''aqi'' (PInt (- 1)) of Inl e \<Rightarrow> Inl e | Inr c \<Rightarrow>
            (case py_int ops c of Inl e \<Rightarrow> Inl e | Inr aqi \<Rightarrow>
            (case method_get csv_res ''date'' PNone of Inl e \<Rightarrow> Inl e | Inr ts \<Rightarrow>
               Inr [(''pm25'', PFloat pm25),
                    (''pm10'', PFloat pm10),
                    (''aqi'', PInt aqi),
                    (''timestamp'', ts),
                    (''source'', PStr ''sample_csv'')]))))))))"

definition fetch ::
  "'f builtins \<Rightarrow> (string \<rightharpoonup> 'f tool) \<Rightarrow> string \<Rightarrow> string \<Rightarrow> exn + 'f dict" where
  "fetch ops tools now location =
     (case fetch_search ops tools now location of
        Inr parsed \<Rightarrow> Inr parsed
      | Inl e \<Rightarrow> fetch_csv ops tools location)"

text \<open>
  \<open>AnalysisAgent.analyze\<close>. \<open>past_vals\<close> is the list comprehension
  \<open>[float(x.get("pm25", 0)) for x in recent_series if x.get("pm25") != '']\<close>, which
  stops at the first value that \<open>float\<close> rejects; \<open>past_avg\<close> is
  \<open>sum(past_vals)/len(past_vals)\<close>. \<open>analyze_try\<close> is the body of the \<open>try\<close> block,
  \<open>analyze\<close> adds the handler. The history is \<open>None\<close> or a list of rows.
\<close>

fun past_vals :: "'f builtins \<Rightarrow> 'f dict list \<Rightarrow> exn + 'f list" where
  "past_vals ops [] = Inr []"
| "past_vals ops (x # xs) =
     (if dict_get x ''pm25'' \<noteq> PStr ''''
      then (case py_float ops (dict_get_default x ''pm25'' (PInt 0)) of
              Inl e \<Rightarrow> Inl e
            | Inr v \<Rightarrow>
                (case past_vals ops xs of Inl e \<Rightarrow> Inl e | Inr vs \<Rightarrow> Inr (v # vs)))
      else past_vals ops xs)"

definition past_avg :: "'f builtins \<Rightarrow> 'f list \<Rightarrow> 'f" where
  "past_avg ops vs = fdiv_int ops (fsum ops vs) (int (length vs))"

definition default_result :: "'f builtins \<Rightarrow> 'f dict" where
  "default_result ops =
     [(''trend'', PStr ''stable''),
      (''anomaly'', PBool False),
      (''confidence'', PFloat (float_lit ops (8 / 10)))]"

definition classify :: "'f builtins \<Rightarrow> 'f \<Rightarrow> 'f \<Rightarrow> 'f dict \<Rightarrow> 'f dict" where
  "classify ops today_pm avg result =
     AList.update ''confidence'' (PFloat (float_lit ops (9 / 10)))
       (if fgt ops today_pm (fmul ops avg (float_lit ops (13 / 10)))
        then AList.update ''anomaly'' (PBool True)
               (AList.update ''trend'' (PStr ''rising'') result)
        else if flt ops today_pm (fmul ops avg (float_lit ops (8 / 10)))
        then AList.update ''trend'' (PStr ''falling'') result
        else AList.update ''trend'' (PStr ''stable'') result)"

definition analyze_try ::
  "'f builtins \<Rightarrow> 'f dict \<Rightarrow> 'f dict list option \<Rightarrow> exn + 'f dict" where
  "analyze_try ops datapoint recent_series =
     (let result = default_result ops in
      case py_float ops (dict_get_default datapoint ''pm25'' (PInt 0)) of
        Inl e \<Rightarrow> Inl e
      | Inr today_pm \<Rightarrow>
          (case recent_series of
             None \<Rightarrow> Inr result
           | Some rows \<Rightarrow>
               if rows = [] then Inr result
               else
                 (case past_vals ops rows of
                    Inl e \<Rightarrow> Inl e
                  | Inr vs \<Rightarrow>
                      if length vs \<noteq> 0
                      then (let avg = past_avg ops vs in
                            if fgt_int ops avg 0
                            then Inr (classify ops today_pm avg result)
                            else Inr result)
                      else Inr result)))"

definition analyze :: "'f builtins \<Rightarrow> 'f dict \<Rightarrow> 'f dict list option \<Rightarrow> 'f dict" where
  "analyze ops datapoint recent_series =
     (case analyze_try ops datapoint recent_series of
        Inl e \<Rightarrow> [(''error'', PStr ''analysis_error'')]
      | Inr result \<Rightarrow> result)"

text \<open>
  \<open>ExplanationAgent.explain\<close>. The f-string renders both values with \<open>format\<close>. In
  \<open>pm25 and float(pm25) > 100\<close> the conversion runs only on a truthy value.
\<close>

definition poor_text :: string where
  "poor_text = ''Air quality is poor '' @ emdash
     @ '' avoid strenuous outdoor activity. If you have respiratory issues, use a mask.''"

definition moderate_text :: string where
  "moderate_text = ''Air quality is moderate; normal activities are OK.''"

definition unable_text :: string where
  "unable_text = ''Unable to fully assess air quality.''"

definition summary_head :: "'f builtins \<Rightarrow> 'f pyval \<Rightarrow> 'f pyval \<Rightarrow> string" where
  "summary_head ops pm25 trend =
     ''Current PM2.5 is '' @ format ops pm25 @ '' '' @ micro @ ''g/m3. Trend: ''
       @ format ops trend @ ''. ''"

definition explain :: "'f builtins \<Rightarrow> 'f dict \<Rightarrow> 'f dict \<Rightarrow> 'f dict" where
  "explain ops datapoint analysis =
     (let pm25 = dict_get datapoint ''pm25'';
          trend = dict_get analysis ''trend'';
          text = summary_head ops pm25 trend;
          text' =
            (if py_truthy ops pm25
             then (case py_float ops pm25 of
                     Inl e \<Rightarrow> text @ unable_text
                   | Inr x \<Rightarrow>
                       if fgt_int ops x 100 then text @ poor_text
                       else text @ moderate_text)
             else text @ moderate_text)
      in [(''summary'', PStr text'),
          (''confidence'',
             dict_get_default analysis ''confidence'' (PFloat (float_lit ops (7 / 10))))])"

text \<open>
  \<open>AdvisoryAgent.advise\<close>. A summary that is not a string has no \<open>lower\<close>, and nothing
  catches that. \<open>user_prefs\<close> is \<open>None\<close> or a dictionary.
\<close>

definition asthma_flag :: "'f builtins \<Rightarrow> 'f dict option \<Rightarrow> bool" where
  "asthma_flag ops user_prefs =
     (case user_prefs of
        None \<Rightarrow> False
      | Some prefs \<Rightarrow> prefs \<noteq> [] \<and> py_truthy ops (dict_get prefs ''asthma''))"

definition advise :: "'f builtins \<Rightarrow> 'f dict \<Rightarrow> 'f dict option \<Rightarrow> exn + 'f dict" where
  "advise ops explanation user_prefs =
     (case dict_get_default explanation ''summary'' (PStr '''') of
        PStr s \<Rightarrow>
          (let advice =
                 (if list_ex (\<lambda>w. sublist w (str_lower s)) [''poor'', ''avoid'']
                  then [PStr ''Avoid outdoor exercise today.'',
                        PStr ''Use N95 mask if you must go out.'']
                  else [PStr ''Good day for outdoor activities.''])
           in Inr [(''advice'',
                    PList (if asthma_flag ops user_prefs
                           then advice @ [PStr ''Carry inhaler and avoid crowded roads.'']
                           else advice))])
      | _ \<Rightarrow> Inl AttributeError)"

section \<open>An instance of the builtins\<close>

text \<open>
  \<open>exact_ops\<close> reads floats as rational numbers with exact arithmetic, which is
  what the doubles compute wherever no rounding occurs. It serves to run the program on
  concrete inputs. Its parsers accept plain decimal numerals (an optional minus sign,
  digits, and for floats an optional fraction), its \<open>format\<close> renders \<open>None\<close>,
  booleans, integers, strings and floats with a finite decimal expansion.
\<close>

definition digit_of :: "char \<Rightarrow> nat option" where
  "digit_of c = map_of (zip ''0123456789'' [0, 1, 2, 3, 4, 5, 6, 7, 8, 9]) c"

fun digits_value :: "nat \<Rightarrow> string \<Rightarrow> nat option" where
  "digits_value acc [] = Some acc"
| "digits_value acc (c # cs) =
     (case digit_of c of None \<Rightarrow> None | Some d \<Rightarrow> digits_value (10 * acc + d) cs)"

definition parse_nat :: "string \<Rightarrow> nat option" where
  "parse_nat s = (if s = [] then None else digits_value 0 s)"

definition parse_int :: "string \<Rightarrow> int option" where
  "parse_int s =
     (case s of
        [] \<Rightarrow> None
      | c # cs \<Rightarrow>
          if c = CHR ''-'' then map_option (\<lambda>n. - int n) (parse_nat cs)
          else map_option int (parse_nat s))"

definition parse_unsigned :: "string \<Rightarrow> rat option" where
  "parse_unsigned s =
     (let whole = takeWhile (\<lambda>c. c \<noteq> CHR ''.'') s;
          rest = dropWhile (\<lambda>c. c \<noteq> CHR ''.'') s
      in case parse_nat whole of
           None \<Rightarrow> None
         | Some w \<Rightarrow>
             (case rest of
                [] \<Rightarrow> Some (of_nat w)
              | _ # ds \<Rightarrow>
                  (case parse_nat ds of
                     None \<Rightarrow> None
                   | Some f \<Rightarrow> Some (of_nat w + of_nat f / 10 ^ length ds))))"

definition parse_decimal :: "string \<Rightarrow> rat option" where
  "parse_decimal s =
     (case s of
        [] \<Rightarrow> None
      | c # cs \<Rightarrow>
          if c = CHR ''-'' then map_option uminus (parse_unsigned cs)
          else parse_unsigned s)"

definition digit_char :: "nat \<Rightarrow> char" where
  "digit_char d = ''0123456789'' ! d"

fun show_nat :: "nat \<Rightarrow> string" where
  "show_nat n =
     (if n < 10 then [digit_char n] else show_nat (n div 10) @ [digit_char (n mod 10)])"

declare show_nat.simps [simp del]

definition show_int :: "int \<Rightarrow> string" where
  "show_int i = (if i < 0 then CHR ''-'' # show_nat (nat (- i)) else show_nat (nat i))"

fun show_frac :: "nat \<Rightarrow> rat \<Rightarrow> string" where
  "show_frac 0 r = []"
| "show_frac (Suc k) r =
     (if r = 0 then []
      else digit_char (nat \<lfloor>10 * r\<rfloor>) # show_frac k (10 * r - of_int \<lfloor>10 * r\<rfloor>))"

definition show_float :: "rat \<Rightarrow> string" where
  "show_float r =
     (let a = \<bar>r\<bar>; w = \<lfloor>a\<rfloor>; f = a - of_int w
      in (if r < 0 then ''-'' else '''') @ show_nat (nat w) @ ''.''
           @ (if f = 0 then ''0'' else show_frac 17 f))"

fun show_val :: "rat pyval \<Rightarrow> string" where
  "show_val PNone = ''None''"
| "show_val (PBool b) = (if b then ''True'' else ''False'')"
| "show_val (PInt i) = show_int i"
| "show_val (PFloat r) = show_float r"
| "show_val (PStr s) = s"
| "show_val (PList vs) = ''[...]''"
| "show_val (PDict d) = ''{...}''"

definition exact_ops :: "rat builtins" where
  "exact_ops =
     \<lparr> float_of_int = (\<lambda>i. Inr (of_int i)),
       float_of_str = parse_decimal,
       float_lit = (\<lambda>q. q),
       float_truthy = (\<lambda>x. x \<noteq> 0),
       fsum = sum_list,
       fdiv_int = (\<lambda>x n. x / of_int n),
       fmul = (\<lambda>x y. x * y),
       fgt = (\<lambda>x y. x > y),
       flt = (\<lambda>x y. x < y),
       fgt_int = (\<lambda>x n. x > of_int n),
       int_of_float = (\<lambda>x. Inr (if 0 \<le> x then \<lfloor>x\<rfloor> else \<lceil>x\<rceil>)),
       int_of_str = parse_int,
       format = show_val \<rparr>"

section \<open>Notions used in the statements\<close>

text \<open>
  A row matches a location as the loop of \<open>CSVLoaderTool.run\<close> tests it: the row's
  location, read as the empty string when the column is missing, equals the queried
  location after \<open>lower\<close> is applied to both.
\<close>

definition row_matches :: "(string \<Rightarrow> string) \<Rightarrow> string \<Rightarrow> 'f dict \<Rightarrow> bool" where
  "row_matches lower location row =
     (case dict_get_default row ''location'' (PStr '''') of
        PStr s \<Rightarrow> lower s = lower location
      | _ \<Rightarrow> False)"

text \<open>A sample file of three complete rows, and the same file with a short last line.\<close>

definition sample_rows :: "rat dict list" where
  "sample_rows =
     [[(''date'', PStr ''2025-11-01''), (''location'', PStr ''Chennai''),
       (''pm25'', PStr ''80''), (''pm10'', PStr ''120''), (''aqi'', PStr ''110'')],
      [(''date'', PStr ''2025-11-01''), (''location'', PStr ''Delhi''),
       (''pm25'', PStr ''180.5''), (''pm10'', PStr ''260''), (''aqi'', PStr ''240'')],
      [(''date'', PStr ''2025-11-02''), (''location'', PStr ''CHENNAI''),
       (''pm25'', PStr ''90''), (''pm10'', PStr ''140''), (''aqi'', PStr ''120'')]]"

definition short_row :: "rat dict" where
  "short_row =
     [(''date'', PStr ''2025-11-03''), (''location'', PNone),
      (''pm25'', PNone), (''pm10'', PNone), (''aqi'', PNone)]"

text \<open>A history of three rows around a mean of 100, the middle one without a value.\<close>

definition sample_history :: "rat dict list" where
  "sample_history =
     [[(''date'', PStr ''2025-10-31''), (''location'', PStr ''Chennai''), (''pm25'', PStr ''90'')],
      [(''date'', PStr ''2025-11-01''), (''location'', PStr ''Chennai''), (''pm25'', PStr '''')],
      [(''date'', PStr ''2025-11-02''), (''location'', PStr ''Chennai''), (''pm25'', PStr ''110'')]]"

text \<open>A history of two rows, the first from a file without a pm25 column.\<close>

definition gap_history :: "rat dict list" where
  "gap_history =
     [[(''date'', PStr ''2025-11-01''), (''location'', PStr ''Chennai'')],
      [(''date'', PStr ''2025-11-02''), (''location'', PStr ''Chennai''), (''pm25'', PStr ''100'')]]"

text \<open>
  A line of the file with a blank pm25 cell, two search tools that give the parser
  nothing, and the tools dictionary of \<open>main\<close> with the search tool and the file as
  arguments. The path and the sample rows are ASCII, where \<open>str.lower\<close> is
  \<open>str_lower\<close>.
\<close>

definition blank_row :: "rat dict" where
  "blank_row =
     [(''date'', PStr ''2025-11-03''), (''location'', PStr ''Chennai''),
      (''pm25'', PStr ''''), (''pm10'', PStr ''150''), (''aqi'', PStr ''130'')]"

definition silent_search :: "rat tool" where
  "silent_search query =
     Inr (PDict [(''query'', PStr query), (''result_snippet'', PStr ''No results found.'')])"

definition failing_search :: "rat tool" where
  "failing_search query = Inl (ToolFailure ''connection refused'')"

definition tools_with :: "rat tool \<Rightarrow> rat csv_file \<Rightarrow> (string \<rightharpoonup> rat tool)" where
  "tools_with search file =
     [''google_search'' \<mapsto> search,
      ''csv_loader'' \<mapsto> CSVLoaderTool_run str_lower ''data/sample_data.csv'' file]"

section \<open>The data source adapters\<close>

lemma space_seqs_prefix_free:
  "list_all (\<lambda>w. list_all (\<lambda>w'. prefix w w' \<longrightarrow> w = w') space_seqs) space_seqs"
  by code_simp

lemma space_seqs_same:
  assumes "w \<in> set space_seqs" and "w' \<in> set space_seqs" and "prefix w w'"
  shows "w = w'"
  using space_seqs_prefix_free assms by (auto simp: list_all_iff)

lemma strip_space_Some:
  assumes "strip_space s = Some rest"
  shows "\<exists>w\<in>set space_seqs. s = w @ rest"
proof -
  from assms obtain w where w: "find (\<lambda>w. prefix w s) space_seqs = Some w"
    and rest: "rest = drop (length w) s"
    by (auto simp: strip_space_def split: option.splits)
  from w have "w \<in> set space_seqs" and "prefix w s"
    by (auto simp: find_Some_iff)
  then show ?thesis
    using rest by (auto simp: prefix_def)
qed

lemma strip_space_append:
  assumes "w \<in> set space_seqs"
  shows "strip_space (w @ rest) = Some rest"
proof -
  have "\<exists>x\<in>set space_seqs. prefix x (w @ rest)"
    by (rule bexI [of _ w]) (simp_all add: assms)
  then obtain w' where f: "find (\<lambda>x. prefix x (w @ rest)) space_seqs = Some w'"
    by (cases "find (\<lambda>x. prefix x (w @ rest)) space_seqs") (auto simp: find_None_iff)
  then have w': "w' \<in> set space_seqs" and p: "prefix w' (w @ rest)"
    by (auto simp: find_Some_iff)
  have "prefix w (w @ rest)"
    by simp
  with p have "prefix w w' \<or> prefix w' w"
    by (rule prefix_same_cases [THEN disjE]) auto
  then have "w' = w"
    using assms w' space_seqs_same by blast
  then show ?thesis
    using f by (simp add: strip_space_def)
qed

lemma spaces_Cons:
  assumes "set ws \<subseteq> set space_seqs" and "c # cs = concat ws"
  shows "\<exists>w rest ws'. w \<in> set space_seqs \<and> c # cs = w @ rest
           \<and> set ws' \<subseteq> set space_seqs \<and> rest = concat ws'"
proof (cases ws)
  case Nil
  with assms show ?thesis by simp
next
  case (Cons w ws')
  with assms show ?thesis
    by (intro exI [of _ w] exI [of _ "concat ws'"] exI [of _ ws']) simp
qed

lemma split_from_Nil_iff:
  "split_from cur s = [] \<longleftrightarrow>
     cur = [] \<and> (\<exists>ws. set ws \<subseteq> set space_seqs \<and> s = concat ws)"
proof (induction cur s rule: split_from.induct)
  case (1 cur)
  show ?case
    by (auto intro: exI [of _ "[]"])
next
  case (2 cur c cs)
  show ?case
  proof (cases "strip_space (c # cs)")
    case None
    have "\<not> (\<exists>ws. set ws \<subseteq> set space_seqs \<and> c # cs = concat ws)"
    proof
      assume "\<exists>ws. set ws \<subseteq> set space_seqs \<and> c # cs = concat ws"
      then obtain w rest where "w \<in> set space_seqs" and "c # cs = w @ rest"
        using spaces_Cons by blast
      then have "strip_space (c # cs) = Some rest"
        by (simp add: strip_space_append)
      with None show False by simp
    qed
    moreover have "split_from cur (c # cs) \<noteq> []"
      using "2.IH"(1) [OF None] None by simp
    ultimately show ?thesis by blast
  next
    case (Some rest)
    then obtain w where w: "w \<in> set space_seqs" and eq: "c # cs = w @ rest"
      using strip_space_Some by blast
    have "(\<exists>ws. set ws \<subseteq> set space_seqs \<and> c # cs = concat ws)
            \<longleftrightarrow> (\<exists>ws. set ws \<subseteq> set space_seqs \<and> rest = concat ws)"
    proof
      assume "\<exists>ws. set ws \<subseteq> set space_seqs \<and> c # cs = concat ws"
      then obtain w' rest' ws' where w': "w' \<in> set space_seqs" and eq': "c # cs = w' @ rest'"
        and ws': "set ws' \<subseteq> set space_seqs" "rest' = concat ws'"
        using spaces_Cons by blast
      have "strip_space (c # cs) = Some rest'"
        unfolding eq' using w' by (rule strip_space_append)
      with Some have "rest' = rest" by simp
      with ws' show "\<exists>ws. set ws \<subseteq> set space_seqs \<and> rest = concat ws" by blast
    next
      assume "\<exists>ws. set ws \<subseteq> set space_seqs \<and> rest = concat ws"
      then obtain ws where "set ws \<subseteq> set space_seqs" and "rest = concat ws" by blast
      then have "set (w # ws) \<subseteq> set space_seqs \<and> c # cs = concat (w # ws)"
        using w eq by simp
      then show "\<exists>ws. set ws \<subseteq> set space_seqs \<and> c # cs = concat ws" by blast
    qed
    moreover have "split_from cur (c # cs) = [] \<longleftrightarrow> cur = [] \<and> split_from [] rest = []"
      using Some by simp
    ultimately show ?thesis
      using "2.IH"(2) [OF Some] by (cases "cur = []") simp_all
  qed
qed

lemma py_split_Nil_iff:
  "py_split s = [] \<longleftrightarrow> (\<exists>ws. set ws \<subseteq> set space_seqs \<and> s = concat ws)"
  by (simp add: py_split_def split_from_Nil_iff)

lemma snippet_mentions_86:
  "sublist ''PM2.5: 86''
     (''AQI '' @ tok @ '': 128 (Unhealthy for sensitive groups). PM2.5: 86 ''
        @ micro @ ''g/m3. Source: example.com'')"
proof -
  have "''AQI '' @ tok @ '': 128 (Unhealthy for sensitive groups). PM2.5: 86 ''
          @ micro @ ''g/m3. Source: example.com''
        = (''AQI '' @ tok @ '': 128 (Unhealthy for sensitive groups). '') @ ''PM2.5: 86''
          @ ('' '' @ micro @ ''g/m3. Source: example.com'')"
    by simp
  then show ?thesis
    unfolding sublist_def by blast
qed

text \<open>
  C10. The search stub returns exactly on the queries that hold a token. The queries
  without a token are the sequences of white space characters, ASCII or not, the empty
  string among them. On a query with a token the result is a record whose
  \<open>result_snippet\<close> contains \<open>PM2.5: 86\<close>; on a query without one, indexing the empty
  token list raises \<open>IndexError\<close>.
\<close>

theorem GoogleSearchTool_run_total_on_tokens:
  "(py_split q = [] \<longleftrightarrow> (\<exists>ws. set ws \<subseteq> set space_seqs \<and> q = concat ws))
   \<and> (py_split q \<noteq> [] \<longrightarrow>
        (\<exists>d s. GoogleSearchTool_run now q = (Inr (PDict d) :: exn + 'f pyval)
               \<and> map_of d ''result_snippet'' = Some (PStr s)
               \<and> sublist ''PM2.5: 86'' s))
   \<and> (py_split q = [] \<longrightarrow>
        GoogleSearchTool_run now q = (Inl IndexError :: exn + 'f pyval))"
proof (intro conjI impI)
  show "py_split q = [] \<longleftrightarrow> (\<exists>ws. set ws \<subseteq> set space_seqs \<and> q = concat ws)"
    by (rule py_split_Nil_iff)
next
  assume "py_split q \<noteq> []"
  then obtain tok toks where toks: "py_split q = tok # toks"
    by (cases "py_split q") auto
  define s where "s = ''AQI '' @ tok @ '': 128 (Unhealthy for sensitive groups). PM2.5: 86 ''
                        @ micro @ ''g/m3. Source: example.com''"
  define d :: "'f dict" where "d = [(''query'', PStr q), (''timestamp'', PStr now),
                       (''result_snippet'', PStr s), (''raw_html'', PStr ''<html>...</html>'')]"
  have "GoogleSearchTool_run now q = Inr (PDict d)"
    unfolding GoogleSearchTool_run_def toks d_def s_def by (simp only: list.case)
  moreover have "map_of d ''result_snippet'' = Some (PStr s)"
    unfolding d_def by simp
  moreover have "sublist ''PM2.5: 86'' s"
    unfolding s_def by (rule snippet_mentions_86)
  ultimately show "\<exists>d s. GoogleSearchTool_run now q = (Inr (PDict d) :: exn + 'f pyval)
               \<and> map_of d ''result_snippet'' = Some (PStr s)
               \<and> sublist ''PM2.5: 86'' s"
    by blast
next
  assume "py_split q = []"
  then show "GoogleSearchTool_run now q = (Inl IndexError :: exn + 'f pyval)"
    by (simp add: GoogleSearchTool_run_def)
qed

theorem GoogleSearchTool_run_total_on_tokens_witness:
  "py_split ''Chennai AQI today'' = [''Chennai'', ''AQI'', ''today'']
   \<and> (\<exists>d s. GoogleSearchTool_run ''2025-11-03T06:00:00'' ''Chennai AQI today''
                = (Inr (PDict d) :: exn + rat pyval)
            \<and> map_of d ''result_snippet'' = Some (PStr s)
            \<and> sublist ''PM2.5: 86'' s)
   \<and> py_split '''' = []
   \<and> GoogleSearchTool_run ''2025-11-03T06:00:00'' '''' = (Inl IndexError :: exn + rat pyval)
   \<and> py_split '' '' = []
   \<and> GoogleSearchTool_run ''2025-11-03T06:00:00'' '' '' = (Inl IndexError :: exn + rat pyval)
   \<and> py_split [CHR 0xC2, CHR 0xA0] = []
   \<and> GoogleSearchTool_run ''2025-11-03T06:00:00'' [CHR 0xC2, CHR 0xA0]
       = (Inl IndexError :: exn + rat pyval)
   \<and> py_split [CHR 0xE3, CHR 0x80, CHR 0x80, CHR 0x09, CHR 0xE2, CHR 0x80, CHR 0xA8] = []
   \<and> GoogleSearchTool_run ''2025-11-03T06:00:00''
         [CHR 0xE3, CHR 0x80, CHR 0x80, CHR 0x09, CHR 0xE2, CHR 0x80, CHR 0xA8]
       = (Inl IndexError :: exn + rat pyval)"
proof -
  have a: "py_split ''Chennai AQI today'' = [''Chennai'', ''AQI'', ''today'']"
    by code_simp
  have b: "py_split '''' = []"
    by code_simp
  have c: "py_split '' '' = []"
    by code_simp
  have d: "py_split [CHR 0xC2, CHR 0xA0] = []"
    by code_simp
  have e: "py_split [CHR 0xE3, CHR 0x80, CHR 0x80, CHR 0x09, CHR 0xE2, CHR 0x80, CHR 0xA8] = []"
    by code_simp
  show ?thesis
    using
      GoogleSearchTool_run_total_on_tokens
        [of "''Chennai AQI today''" "''2025-11-03T06:00:00''", where ?'f = rat]
      GoogleSearchTool_run_total_on_tokens
        [of "''''" "''2025-11-03T06:00:00''", where ?'f = rat]
      GoogleSearchTool_run_total_on_tokens
        [of "'' ''" "''2025-11-03T06:00:00''", where ?'f = rat]
      GoogleSearchTool_run_total_on_tokens
        [of "[CHR 0xC2, CHR 0xA0]" "''2025-11-03T06:00:00''", where ?'f = rat]
      GoogleSearchTool_run_total_on_tokens
        [of "[CHR 0xE3, CHR 0x80, CHR 0x80, CHR 0x09, CHR 0xE2, CHR 0x80, CHR 0xA8]"
            "''2025-11-03T06:00:00''", where ?'f = rat]
    by (simp only: a b c d e) blast
qed

lemma csv_scan_strings:
  assumes "\<forall>r\<in>set rows. \<exists>s. dict_get_default r ''location'' (PStr '''') = PStr s"
  shows "csv_scan lower loc rows latest =
           Inr (if filter (row_matches lower loc) rows = [] then latest
                else Some (last (filter (row_matches lower loc) rows)))"
  using assms
proof (induction rows arbitrary: latest)
  case Nil
  then show ?case by simp
next
  case (Cons r rows)
  then obtain s where s: "dict_get_default r ''location'' (PStr '''') = PStr s"
    by auto
  from Cons.prems
  have rest: "\<forall>r\<in>set rows. \<exists>s. dict_get_default r ''location'' (PStr '''') = PStr s"
    by simp
  have rm: "row_matches lower loc r = (lower s = lower loc)"
    by (simp add: row_matches_def s)
  show ?case
    by (simp add: s rm Cons.IH [OF rest])
qed

text \<open>
  What the lookup does on a file whose rows are non-empty dictionaries with a string in
  the location column, or with no such column: it returns the last row that matches the
  queried location, or the error record \<open>no data for location\<close> when none does. A
  missing file gives the error record \<open>sample data missing\<close>. This holds for every
  lowering function.
\<close>

lemma CSVLoaderTool_run_on_string_locations:
  fixes rows :: "'f dict list"
  assumes "\<forall>r\<in>set rows.
             r \<noteq> [] \<and> (\<exists>s. dict_get_default r ''location'' (PStr '''') = PStr s)"
  shows "CSVLoaderTool_run lower path_str (Readable rows) loc =
           (if filter (row_matches lower loc) rows = []
            then Inr (PDict [(''error'', PStr ''no data for location'')])
            else Inr (PDict (last (filter (row_matches lower loc) rows))))"
proof -
  have strs: "\<forall>r\<in>set rows. \<exists>s. dict_get_default r ''location'' (PStr '''') = PStr s"
    using assms by blast
  have "last (filter (row_matches lower loc) rows) \<noteq> []"
    if "filter (row_matches lower loc) rows \<noteq> []"
  proof -
    have "last (filter (row_matches lower loc) rows)
            \<in> set (filter (row_matches lower loc) rows)"
      using that by (rule last_in_set)
    then show ?thesis using assms by auto
  qed
  then show ?thesis
    by (simp add: CSVLoaderTool_run_def csv_scan_strings [OF strs])
qed

lemma CSVLoaderTool_run_no_file:
  "CSVLoaderTool_run lower path_str Missing loc =
     Inr (PDict [(''error'', PStr ''sample data missing''), (''path'', PStr path_str)])"
  "CSVLoaderTool_run lower path_str (Unreadable e) loc = Inl e"
  by (simp_all add: CSVLoaderTool_run_def)

lemma csv_scan_raises:
  assumes "\<forall>r\<in>set pre. \<exists>s. dict_get_default r ''location'' (PStr '''') = PStr s"
    and "\<forall>s. dict_get_default r ''location'' (PStr '''') \<noteq> PStr s"
  shows "csv_scan lower loc (pre @ r # post) latest = Inl AttributeError"
  using assms(1)
proof (induction pre arbitrary: latest)
  case Nil
  show ?case
    using assms(2) by (cases "dict_get_default r ''location'' (PStr '''')") simp_all
next
  case (Cons p pre)
  then obtain s where "dict_get_default p ''location'' (PStr '''') = PStr s"
    by auto
  with Cons show ?case by simp
qed

text \<open>
  C3. The claim is what the lookup is meant to do, and the code misses it on a file with
  a short line. A line that ends before the location column gives a row whose location
  is \<open>None\<close>: \<open>row.get('location','')\<close> guards against a missing column only, and
  \<open>None.lower()\<close> raises \<open>AttributeError\<close>. On the sample file followed by such a line
  the query \<open>chennai\<close> has matching rows, the last of them the third row, and the lookup
  raises instead of returning it.
\<close>

theorem CSVLoaderTool_run_short_row_raises:
  "row_matches str_lower ''chennai'' (sample_rows ! 2)
   \<and> dict_get_default short_row ''location'' (PStr '''') = PNone
   \<and> CSVLoaderTool_run str_lower ''data/sample_data.csv''
        (Readable (sample_rows @ [short_row])) ''chennai''
       = Inl AttributeError"
proof -
  have strs: "\<forall>r\<in>set sample_rows. \<exists>s. dict_get_default r ''location'' (PStr '''') = PStr s"
    by (simp add: sample_rows_def dict_get_default_def)
  have none: "dict_get_default short_row ''location'' (PStr '''') = PNone"
    by (simp add: short_row_def dict_get_default_def)
  then have "\<forall>s. dict_get_default short_row ''location'' (PStr '''') \<noteq> PStr s"
    by simp
  then have "csv_scan str_lower ''chennai'' (sample_rows @ short_row # []) None
               = Inl AttributeError"
    using strs by (rule csv_scan_raises [rotated])
  moreover have "row_matches str_lower ''chennai'' (sample_rows ! 2)"
    by code_simp
  ultimately show ?thesis
    using none by (simp add: CSVLoaderTool_run_def)
qed

lemma CSVLoaderTool_run_sample:
  "CSVLoaderTool_run str_lower ''data/sample_data.csv'' (Readable sample_rows) ''chennai''
     = Inr (PDict (sample_rows ! 2))
   \<and> CSVLoaderTool_run str_lower ''data/sample_data.csv'' (Readable sample_rows) ''Mumbai''
     = Inr (PDict [(''error'', PStr ''no data for location'')])"
proof -
  have h: "\<forall>r\<in>set sample_rows.
             r \<noteq> [] \<and> (\<exists>s. dict_get_default r ''location'' (PStr '''') = PStr s)"
    by (simp add: sample_rows_def dict_get_default_def)
  have m1: "filter (row_matches str_lower ''chennai'') sample_rows
              = [sample_rows ! 0, sample_rows ! 2]"
    by code_simp
  have m2: "filter (row_matches str_lower ''Mumbai'') sample_rows = []"
    by code_simp
  show ?thesis
    using CSVLoaderTool_run_on_string_locations
            [OF h, of str_lower "''data/sample_data.csv''" "''chennai''"]
      CSVLoaderTool_run_on_string_locations
            [OF h, of str_lower "''data/sample_data.csv''" "''Mumbai''"]
    by (simp add: m1 m2)
qed

section \<open>The snippet parser\<close>




section \<open>The data fetch\<close>

lemma fetch_search_fails:
  assumes "(\<exists>e. call_tool tools ''google_search'' (location @ '' AQI today'') = Inl e)
           \<or> (\<exists>res. call_tool tools ''google_search'' (location @ '' AQI today'')
                        = Inr (PDict res)
                     \<and> parse_search_snippet ops
                          (dict_get_default res ''result_snippet'' (PStr '''')) = [])"
  shows "\<exists>e. fetch_search ops tools now location = Inl e"
  using assms by (auto simp: fetch_search_def Let_def)

lemma fetch_csv_error_iff:
  assumes "call_tool tools ''csv_loader'' location = Inr csv_res"
  shows "fetch_csv ops tools location = Inr [(''error'', PStr ''no data available'')]
           \<longleftrightarrow> is_error_record ops csv_res"
  using assms
  by (auto simp: fetch_csv_def split: sum.splits)

lemma fetch_csv_reading:
  assumes "call_tool tools ''csv_loader'' location = Inr (PDict row)"
    and "\<not> is_error_record ops (PDict row)"
    and "map_of row ''pm25'' = Some a" and "py_float ops a = Inr x"
    and "map_of row ''pm10'' = Some b" and "py_float ops b = Inr y"
    and "py_int ops (dict_get_default row ''aqi'' (PInt (- 1))) = Inr n"
  shows "fetch_csv ops tools location =
           Inr [(''pm25'', PFloat x), (''pm10'', PFloat y), (''aqi'', PInt n),
                (''timestamp'', dict_get row ''date''), (''source'', PStr ''sample_csv'')]"
  using assms
  by (simp add: fetch_csv_def method_get_def dict_get_def dict_get_default_def)

text \<open>
  C2, as stated, fails in its last part: when the row that the CSV adapter returns has a
  field that does not coerce, the fetch returns no reading. The coercion raises inside
  the handler, where nothing catches it. Here the search gives the parser nothing and the
  last row of the file for Chennai has a blank pm25 cell: \<open>float('')\<close> raises
  \<open>ValueError\<close>.
\<close>

theorem fetch_blank_cell_counterexample:
  "parse_search_snippet exact_ops (PStr ''No results found.'') = []
   \<and> CSVLoaderTool_run str_lower ''data/sample_data.csv''
        (Readable (sample_rows @ [blank_row])) ''Chennai''
       = Inr (PDict blank_row)
   \<and> \<not> is_error_record exact_ops (PDict blank_row)
   \<and> fetch exact_ops (tools_with silent_search (Readable (sample_rows @ [blank_row])))
        ''2025-11-03T06:00:00'' ''Chennai''
       = Inl ValueError"
  by code_simp

text \<open>
  C2, amended. Whenever the search adapter raises or the parse of its snippet is empty,
  the CSV adapter is consulted for the same location. If it returns \<open>csv_res\<close>, the fetch
  returns \<open>{"error": "no data available"}\<close> exactly when \<open>csv_res\<close> is an error record (a
  dictionary with a truthy \<open>error\<close> entry). Otherwise, when \<open>csv_res\<close> is a row whose
  pm25 and pm10 coerce to floats and whose aqi (-1 when absent) coerces to an integer,
  the fetch returns the reading with these values, the row's date as timestamp and the
  source \<open>sample_csv\<close>; in every other case it raises.
\<close>

theorem fetch_falls_back_to_csv:
  assumes "(\<exists>e. call_tool tools ''google_search'' (location @ '' AQI today'') = Inl e)
           \<or> (\<exists>res. call_tool tools ''google_search'' (location @ '' AQI today'')
                        = Inr (PDict res)
                     \<and> parse_search_snippet ops
                          (dict_get_default res ''result_snippet'' (PStr '''')) = [])"
    and "call_tool tools ''csv_loader'' location = Inr csv_res"
  shows "(fetch ops tools now location = Inr [(''error'', PStr ''no data available'')]
            \<longleftrightarrow> is_error_record ops csv_res)
         \<and> (\<forall>row a b x y n.
               csv_res = PDict row \<and> \<not> is_error_record ops csv_res
               \<and> map_of row ''pm25'' = Some a \<and> py_float ops a = Inr x
               \<and> map_of row ''pm10'' = Some b \<and> py_float ops b = Inr y
               \<and> py_int ops (dict_get_default row ''aqi'' (PInt (- 1))) = Inr n
               \<longrightarrow> fetch ops tools now location =
                     Inr [(''pm25'', PFloat x), (''pm10'', PFloat y), (''aqi'', PInt n),
                          (''timestamp'', dict_get row ''date''),
                          (''source'', PStr ''sample_csv'')])
         \<and> (\<not> is_error_record ops csv_res
              \<and> \<not> (\<exists>row a b x y n.
                     csv_res = PDict row
                     \<and> map_of row ''pm25'' = Some a \<and> py_float ops a = Inr x
                     \<and> map_of row ''pm10'' = Some b \<and> py_float ops b = Inr y
                     \<and> py_int ops (dict_get_default row ''aqi'' (PInt (- 1))) = Inr n)
              \<longrightarrow> (\<exists>e. fetch ops tools now location = Inl e))"
proof -
  obtain e where "fetch_search ops tools now location = Inl e"
    using fetch_search_fails [OF assms(1)] by blast
  then have fb: "fetch ops tools now location = fetch_csv ops tools location"
    by (simp add: fetch_def)
  have one: "fetch_csv ops tools location = Inr [(''error'', PStr ''no data available'')]
               \<longleftrightarrow> is_error_record ops csv_res"
    using assms(2) by (rule fetch_csv_error_iff)
  have two: "fetch_csv ops tools location =
               Inr [(''pm25'', PFloat x), (''pm10'', PFloat y), (''aqi'', PInt n),
                    (''timestamp'', dict_get row ''date''), (''source'', PStr ''sample_csv'')]"
    if "csv_res = PDict row \<and> \<not> is_error_record ops csv_res
        \<and> map_of row ''pm25'' = Some a \<and> py_float ops a = Inr x
        \<and> map_of row ''pm10'' = Some b \<and> py_float ops b = Inr y
        \<and> py_int ops (dict_get_default row ''aqi'' (PInt (- 1))) = Inr n"
    for row a b x y n
    using that assms(2) fetch_csv_reading [of tools location row ops a x b y n] by auto
  have three: "\<exists>e. fetch_csv ops tools location = Inl e"
    if ne: "\<not> is_error_record ops csv_res"
      and no: "\<not> (\<exists>row a b x y n.
                     csv_res = PDict row
                     \<and> map_of row ''pm25'' = Some a \<and> py_float ops a = Inr x
                     \<and> map_of row ''pm10'' = Some b \<and> py_float ops b = Inr y
                     \<and> py_int ops (dict_get_default row ''aqi'' (PInt (- 1))) = Inr n)"
  proof (cases csv_res)
    case (PDict row)
    with ne no assms(2) show ?thesis
      by (auto simp: fetch_csv_def method_get_def split: sum.splits option.splits)
  qed (use ne assms(2) in \<open>simp_all add: fetch_csv_def\<close>)
  show ?thesis
    unfolding fb using one two three by blast
qed

theorem fetch_falls_back_to_csv_witness:
  "fetch exact_ops (tools_with failing_search (Readable sample_rows)) ''2025-11-03T06:00:00'' ''Chennai''
     = Inr [(''pm25'', PFloat 90), (''pm10'', PFloat 140), (''aqi'', PInt 120),
            (''timestamp'', PStr ''2025-11-02''), (''source'', PStr ''sample_csv'')]
   \<and> fetch exact_ops (tools_with silent_search (Readable sample_rows)) ''2025-11-03T06:00:00'' ''Mumbai''
     = Inr [(''error'', PStr ''no data available'')]
   \<and> fetch exact_ops (tools_with silent_search Missing) ''2025-11-03T06:00:00'' ''Chennai''
     = Inr [(''error'', PStr ''no data available'')]"
proof -
  have s1: "(\<exists>e. call_tool (tools_with failing_search (Readable sample_rows)) ''google_search''
                    (''Chennai'' @ '' AQI today'') = Inl e)
            \<or> (\<exists>res. call_tool (tools_with failing_search (Readable sample_rows)) ''google_search''
                        (''Chennai'' @ '' AQI today'') = Inr (PDict res)
                     \<and> parse_search_snippet exact_ops
                          (dict_get_default res ''result_snippet'' (PStr '''')) = [])"
    by (simp add: call_tool_def tools_with_def failing_search_def)
  have p: "parse_search_snippet exact_ops (PStr ''No results found.'') = []"
    by code_simp
  have s2: "(\<exists>e. call_tool (tools_with silent_search fl) ''google_search''
                    (loc @ '' AQI today'') = Inl e)
            \<or> (\<exists>res. call_tool (tools_with silent_search fl) ''google_search''
                        (loc @ '' AQI today'') = Inr (PDict res)
                     \<and> parse_search_snippet exact_ops
                          (dict_get_default res ''result_snippet'' (PStr '''')) = [])"
    for fl loc
    by (simp add: call_tool_def tools_with_def silent_search_def dict_get_default_def p)
  have c1: "call_tool (tools_with failing_search (Readable sample_rows)) ''csv_loader'' ''Chennai''
              = Inr (PDict (sample_rows ! 2))"
    by code_simp
  have c2: "call_tool (tools_with silent_search (Readable sample_rows)) ''csv_loader'' ''Mumbai''
              = Inr (PDict [(''error'', PStr ''no data for location'')])"
    by code_simp
  have c3: "call_tool (tools_with silent_search Missing) ''csv_loader'' ''Chennai''
              = Inr (PDict [(''error'', PStr ''sample data missing''),
                            (''path'', PStr ''data/sample_data.csv'')])"
    by code_simp
  have r: "\<not> is_error_record exact_ops (PDict (sample_rows ! 2))"
    "map_of (sample_rows ! 2) ''pm25'' = Some (PStr ''90'')"
    "py_float exact_ops (PStr ''90'') = Inr 90"
    "map_of (sample_rows ! 2) ''pm10'' = Some (PStr ''140'')"
    "py_float exact_ops (PStr ''140'') = Inr 140"
    "py_int exact_ops (dict_get_default (sample_rows ! 2) ''aqi'' (PInt (- 1))) = Inr 120"
    "dict_get (sample_rows ! 2) ''date'' = PStr ''2025-11-02''"
    by code_simp+
  have e: "is_error_record exact_ops (PDict [(''error'', PStr ''no data for location'')])"
    "is_error_record exact_ops
       (PDict [(''error'', PStr ''sample data missing''),
               (''path'', PStr ''data/sample_data.csv'')])"
    by code_simp+
  have w1: "fetch exact_ops (tools_with failing_search (Readable sample_rows))
              ''2025-11-03T06:00:00'' ''Chennai''
            = Inr [(''pm25'', PFloat 90), (''pm10'', PFloat 140), (''aqi'', PInt 120),
                   (''timestamp'', PStr ''2025-11-02''), (''source'', PStr ''sample_csv'')]"
    using fetch_falls_back_to_csv [OF s1 c1, of "''2025-11-03T06:00:00''"] r
    by (metis (no_types, lifting))
  have w2: "fetch exact_ops (tools_with silent_search (Readable sample_rows))
              ''2025-11-03T06:00:00'' ''Mumbai''
            = Inr [(''error'', PStr ''no data available'')]"
    using fetch_falls_back_to_csv [OF s2 c2, of "''2025-11-03T06:00:00''"] e(1)
    by blast
  have w3: "fetch exact_ops (tools_with silent_search Missing)
              ''2025-11-03T06:00:00'' ''Chennai''
            = Inr [(''error'', PStr ''no data available'')]"
    using fetch_falls_back_to_csv [OF s2 c3, of "''2025-11-03T06:00:00''"] e(2)
    by blast
  show ?thesis
    using w1 w2 w3 by blast
qed

section \<open>The trend classifier\<close>

lemma past_vals_Nil_iff: "past_vals ops rows = Inr vs \<Longrightarrow> rows = [] \<Longrightarrow> vs = []"
  by simp

lemma analyze_try_history:
  assumes "py_float ops (dict_get_default dp ''pm25'' (PInt 0)) = Inr t"
    and "past_vals ops rows = Inr vs"
    and "vs \<noteq> []"
  shows "analyze_try ops dp (Some rows) =
           Inr (if fgt_int ops (past_avg ops vs) 0
                then classify ops t (past_avg ops vs) (default_result ops)
                else default_result ops)"
proof -
  have "rows \<noteq> []"
    using assms(2,3) by auto
  then show ?thesis
    using assms by (simp add: analyze_try_def Let_def)
qed

lemma classify_default:
  "classify ops t avg (default_result ops) =
     [(''trend'',
         PStr (if fgt ops t (fmul ops avg (float_lit ops (13 / 10))) then ''rising''
               else if flt ops t (fmul ops avg (float_lit ops (8 / 10))) then ''falling''
               else ''stable'')),
      (''anomaly'', PBool (fgt ops t (fmul ops avg (float_lit ops (13 / 10))))),
      (''confidence'', PFloat (float_lit ops (9 / 10)))]"
  by (simp add: classify_def default_result_def)

lemma exact_thresholds_exclusive:
  assumes "fgt_int exact_ops avg 0"
  shows "\<not> (fgt exact_ops t (fmul exact_ops avg (float_lit exact_ops (13 / 10)))
            \<and> flt exact_ops t (fmul exact_ops avg (float_lit exact_ops (8 / 10))))"
  using assms by (simp add: exact_ops_def)

text \<open>
  C1. Let the reading's pm25 coerce to the float \<open>t\<close>, let the history give the
  non-empty list \<open>vs\<close> of past values, and let their mean \<open>M = sum vs / len vs\<close> be
  above 0. Then the classifier returns trend \<open>rising\<close> with anomaly true when
  \<open>t > M * 1.3\<close>, else trend \<open>falling\<close> with anomaly false when \<open>t < M * 0.8\<close>, else
  trend \<open>stable\<close> with anomaly false; the confidence is 0.9 in all three cases. (For
  numbers and a positive mean the first two conditions exclude each other; the code tests
  them in this order.)
\<close>

theorem analyze_classifies_against_mean:
  assumes "py_float ops (dict_get_default dp ''pm25'' (PInt 0)) = Inr t"
    and "past_vals ops rows = Inr vs"
    and "vs \<noteq> []"
    and "fgt_int ops (past_avg ops vs) 0"
  shows "analyze ops dp (Some rows) =
           [(''trend'',
               PStr (if fgt ops t (fmul ops (past_avg ops vs) (float_lit ops (13 / 10)))
                     then ''rising''
                     else if flt ops t (fmul ops (past_avg ops vs) (float_lit ops (8 / 10)))
                     then ''falling''
                     else ''stable'')),
            (''anomaly'',
               PBool (fgt ops t (fmul ops (past_avg ops vs) (float_lit ops (13 / 10))))),
            (''confidence'', PFloat (float_lit ops (9 / 10)))]"
  using assms(4)
  by (simp only: analyze_def analyze_try_history [OF assms(1,2,3)] classify_default
        if_True sum.case)

lemma sample_history_vals: "past_vals exact_ops sample_history = Inr [90, 110]"
  by code_simp

lemma sample_history_avg: "past_avg exact_ops [90, 110] = 100"
  by code_simp

theorem analyze_classifies_against_mean_witness:
  "analyze exact_ops [(''pm25'', PFloat 131)] (Some sample_history)
     = [(''trend'', PStr ''rising''), (''anomaly'', PBool True),
        (''confidence'', PFloat (9 / 10))]
   \<and> analyze exact_ops [(''pm25'', PFloat 79)] (Some sample_history)
     = [(''trend'', PStr ''falling''), (''anomaly'', PBool False),
        (''confidence'', PFloat (9 / 10))]
   \<and> analyze exact_ops [(''pm25'', PStr ''104.5'')] (Some sample_history)
     = [(''trend'', PStr ''stable''), (''anomaly'', PBool False),
        (''confidence'', PFloat (9 / 10))]"
proof -
  have pos: "fgt_int exact_ops (past_avg exact_ops [90, 110]) 0"
    by code_simp
  have ne: "[90, 110 :: rat] \<noteq> []"
    by simp
  have t1: "py_float exact_ops (dict_get_default [(''pm25'', PFloat 131)] ''pm25'' (PInt 0))
              = Inr 131"
    by code_simp
  have t2: "py_float exact_ops (dict_get_default [(''pm25'', PFloat 79)] ''pm25'' (PInt 0))
              = Inr 79"
    by code_simp
  have t3: "py_float exact_ops (dict_get_default [(''pm25'', PStr ''104.5'')] ''pm25'' (PInt 0))
              = Inr (209 / 2)"
    by code_simp
  have c: "fgt exact_ops x y = (y < x)" "flt exact_ops x y = (x < y)"
    "fmul exact_ops x y = x * y" "float_lit exact_ops q = q" for x y q
    by (simp_all add: exact_ops_def)
  show ?thesis
    using analyze_classifies_against_mean [OF t1 sample_history_vals ne pos]
      analyze_classifies_against_mean [OF t2 sample_history_vals ne pos]
      analyze_classifies_against_mean [OF t3 sample_history_vals ne pos]
    by (simp add: sample_history_avg c)
qed

lemma past_vals_filter:
  assumes "\<forall>x\<in>set rows. dict_get x ''pm25'' \<noteq> PStr '''' \<longrightarrow>
             py_float ops (dict_get_default x ''pm25'' (PInt 0)) = Inr (val x)"
  shows "past_vals ops rows =
           Inr (map val (filter (\<lambda>x. dict_get x ''pm25'' \<noteq> PStr '''') rows))"
  using assms by (induction rows) auto

lemma absent_counts_as_zero:
  assumes "map_of x ''pm25'' = None"
  shows "dict_get x ''pm25'' \<noteq> PStr ''''"
    and "py_float ops (dict_get_default x ''pm25'' (PInt 0)) = float_of_int ops 0"
  using assms by (simp_all add: dict_get_def dict_get_default_def)

text \<open>
  C5, as stated, fails on the rows whose pm25 field is absent: \<open>x.get("pm25")\<close> is then
  \<open>None\<close>, which differs from the empty string, so the row is kept and
  \<open>x.get("pm25", 0)\<close> enters the mean as 0. With one row lacking the field and one row
  at 100 the list of past values is \<open>[0, 100]\<close> and the mean is 50, not 100: a reading
  of 70 is classified \<open>rising\<close>, where the second row alone makes it \<open>falling\<close>.
\<close>

theorem past_vals_absent_counterexample:
  "map_of (gap_history ! 0) ''pm25'' = None
   \<and> past_vals exact_ops gap_history = Inr [0, 100]
   \<and> past_avg exact_ops [0, 100] = 50
   \<and> analyze exact_ops [(''pm25'', PFloat 70)] (Some gap_history)
       = [(''trend'', PStr ''rising''), (''anomaly'', PBool True),
          (''confidence'', PFloat (9 / 10))]
   \<and> analyze exact_ops [(''pm25'', PFloat 70)] (Some [gap_history ! 1])
       = [(''trend'', PStr ''falling''), (''anomaly'', PBool False),
          (''confidence'', PFloat (9 / 10))]"
  by code_simp

text \<open>
  C5, amended. Take a history in which every row whose pm25 is not the empty string
  coerces to a float, \<open>val x\<close> for the row \<open>x\<close>. Then the past values are the values of
  exactly the rows whose pm25 is not the empty string, in order: the rows with an empty
  pm25 contribute neither to the sum nor to the count, while a row without the field is
  counted with the value \<open>float(0)\<close>. When that list \<open>vs\<close> is not empty, the mean the
  classifier compares with is \<open>sum vs / len vs\<close>.
\<close>

theorem past_vals_skips_empty_strings:
  assumes "\<forall>x\<in>set rows. dict_get x ''pm25'' \<noteq> PStr '''' \<longrightarrow>
             py_float ops (dict_get_default x ''pm25'' (PInt 0)) = Inr (val x)"
    and "vs = map val (filter (\<lambda>x. dict_get x ''pm25'' \<noteq> PStr '''') rows)"
  shows "past_vals ops rows = Inr vs
         \<and> (\<forall>x\<in>set rows. map_of x ''pm25'' = None \<longrightarrow>
               dict_get x ''pm25'' \<noteq> PStr '''' \<and> float_of_int ops 0 = Inr (val x))
         \<and> (\<forall>t. py_float ops (dict_get_default dp ''pm25'' (PInt 0)) = Inr t \<and> vs \<noteq> [] \<longrightarrow>
               analyze_try ops dp (Some rows) =
                 Inr (if fgt_int ops (fdiv_int ops (fsum ops vs) (int (length vs))) 0
                      then classify ops t (fdiv_int ops (fsum ops vs) (int (length vs)))
                             (default_result ops)
                      else default_result ops))"
proof (intro conjI ballI impI allI)
  show pv: "past_vals ops rows = Inr vs"
    unfolding assms(2) using assms(1) by (rule past_vals_filter)
  show "analyze_try ops dp (Some rows) =
          Inr (if fgt_int ops (fdiv_int ops (fsum ops vs) (int (length vs))) 0
               then classify ops t (fdiv_int ops (fsum ops vs) (int (length vs)))
                      (default_result ops)
               else default_result ops)"
    if "py_float ops (dict_get_default dp ''pm25'' (PInt 0)) = Inr t \<and> vs \<noteq> []" for t
    using analyze_try_history [of ops dp t rows vs] that pv
    by (simp add: past_avg_def)
next
  fix x
  assume x: "x \<in> set rows" and none: "map_of x ''pm25'' = None"
  show "dict_get x ''pm25'' \<noteq> PStr ''''"
    using none by (rule absent_counts_as_zero(1))
  then have "py_float ops (dict_get_default x ''pm25'' (PInt 0)) = Inr (val x)"
    using assms(1) x by blast
  then show "float_of_int ops 0 = Inr (val x)"
    by (simp only: absent_counts_as_zero(2) [OF none])
qed

theorem past_vals_skips_empty_strings_witness:
  "past_vals exact_ops sample_history = Inr [90, 110]
   \<and> past_vals exact_ops gap_history = Inr [0, 100]
   \<and> analyze_try exact_ops [(''pm25'', PFloat 131)] (Some sample_history)
       = Inr [(''trend'', PStr ''rising''), (''anomaly'', PBool True),
              (''confidence'', PFloat (9 / 10))]"
proof -
  define val :: "rat dict \<Rightarrow> rat" where
    "val x = (case py_float exact_ops (dict_get_default x ''pm25'' (PInt 0)) of
                Inr v \<Rightarrow> v | Inl e \<Rightarrow> 0)" for x
  have h1: "\<forall>x\<in>set sample_history. dict_get x ''pm25'' \<noteq> PStr '''' \<longrightarrow>
              py_float exact_ops (dict_get_default x ''pm25'' (PInt 0)) = Inr (val x)"
    unfolding val_def sample_history_def by code_simp
  have h2: "\<forall>x\<in>set gap_history. dict_get x ''pm25'' \<noteq> PStr '''' \<longrightarrow>
              py_float exact_ops (dict_get_default x ''pm25'' (PInt 0)) = Inr (val x)"
    unfolding val_def gap_history_def by code_simp
  have v1: "map val (filter (\<lambda>x. dict_get x ''pm25'' \<noteq> PStr '''') sample_history) = [90, 110]"
    unfolding val_def by code_simp
  have v2: "map val (filter (\<lambda>x. dict_get x ''pm25'' \<noteq> PStr '''') gap_history) = [0, 100]"
    unfolding val_def by code_simp
  have t: "py_float exact_ops (dict_get_default [(''pm25'', PFloat 131)] ''pm25'' (PInt 0))
             = Inr 131"
    by code_simp
  have c: "classify exact_ops 131 (fdiv_int exact_ops (fsum exact_ops [90, 110]) (int (length [90, 110 :: rat])))
             (default_result exact_ops)
           = [(''trend'', PStr ''rising''), (''anomaly'', PBool True),
              (''confidence'', PFloat (9 / 10))]"
    by code_simp
  have p: "fgt_int exact_ops (fdiv_int exact_ops (fsum exact_ops [90, 110]) (int (length [90, 110 :: rat]))) 0"
    by code_simp
  show ?thesis
    using past_vals_skips_empty_strings [OF h1 v1 [symmetric], of "[(''pm25'', PFloat 131)]"]
      past_vals_skips_empty_strings [OF h2 v2 [symmetric], of "[(''pm25'', PFloat 131)]"]
      t c p
    by simp
qed

text \<open>
  C8, as stated, fails: the classifier coerces the reading's pm25 before it looks at the
  history, and a reading whose pm25 is the empty string or \<open>None\<close> makes \<open>float\<close> raise,
  which the handler turns into the analysis error, with or without a history.
\<close>

theorem analyze_no_history_counterexample:
  "analyze exact_ops [(''pm25'', PStr '''')] None = [(''error'', PStr ''analysis_error'')]
   \<and> analyze exact_ops [(''pm25'', PStr '''')] (Some []) = [(''error'', PStr ''analysis_error'')]
   \<and> analyze exact_ops [(''pm25'', PNone)] None = [(''error'', PStr ''analysis_error'')]
   \<and> analyze exact_ops [(''pm25'', PNone)] (Some []) = [(''error'', PStr ''analysis_error'')]"
  by code_simp

text \<open>
  C8, amended. For every reading whose pm25 is absent or coerces to a float, the
  classifier called with an absent or empty history returns trend \<open>stable\<close>, anomaly
  false, confidence 0.8. For a reading whose pm25 does not coerce it returns the
  analysis error.
\<close>

theorem analyze_no_history:
  "(\<forall>t. py_float ops (dict_get_default dp ''pm25'' (PInt 0)) = Inr t \<longrightarrow>
        analyze ops dp None =
          [(''trend'', PStr ''stable''), (''anomaly'', PBool False),
           (''confidence'', PFloat (float_lit ops (8 / 10)))]
        \<and> analyze ops dp (Some []) =
          [(''trend'', PStr ''stable''), (''anomaly'', PBool False),
           (''confidence'', PFloat (float_lit ops (8 / 10)))])
   \<and> (\<forall>e. py_float ops (dict_get_default dp ''pm25'' (PInt 0)) = Inl e \<longrightarrow>
        analyze ops dp None = [(''error'', PStr ''analysis_error'')]
        \<and> analyze ops dp (Some []) = [(''error'', PStr ''analysis_error'')])"
  by (simp add: analyze_def analyze_try_def default_result_def Let_def)

theorem analyze_no_history_witness:
  "analyze exact_ops [(''pm25'', PFloat 86), (''pm10'', PFloat 150)] None
     = [(''trend'', PStr ''stable''), (''anomaly'', PBool False),
        (''confidence'', PFloat (8 / 10))]
   \<and> analyze exact_ops [(''pm25'', PFloat 86), (''pm10'', PFloat 150)] (Some [])
     = [(''trend'', PStr ''stable''), (''anomaly'', PBool False),
        (''confidence'', PFloat (8 / 10))]
   \<and> analyze exact_ops [(''error'', PStr ''no data available'')] None
     = [(''trend'', PStr ''stable''), (''anomaly'', PBool False),
        (''confidence'', PFloat (8 / 10))]
   \<and> analyze exact_ops [(''pm25'', PStr ''n/a'')] None = [(''error'', PStr ''analysis_error'')]"
proof -
  have t1: "py_float exact_ops
              (dict_get_default [(''pm25'', PFloat 86), (''pm10'', PFloat 150)] ''pm25'' (PInt 0))
            = Inr 86"
    by code_simp
  have t2: "py_float exact_ops
              (dict_get_default [(''error'', PStr ''no data available'')] ''pm25'' (PInt 0))
            = Inr 0"
    by code_simp
  have t3: "py_float exact_ops (dict_get_default [(''pm25'', PStr ''n/a'')] ''pm25'' (PInt 0))
            = Inl ValueError"
    by code_simp
  have l: "float_lit exact_ops q = q" for q
    by (simp add: exact_ops_def)
  show ?thesis
    using analyze_no_history [of exact_ops "[(''pm25'', PFloat 86), (''pm10'', PFloat 150)]"]
      analyze_no_history [of exact_ops "[(''error'', PStr ''no data available'')]"]
      analyze_no_history [of exact_ops "[(''pm25'', PStr ''n/a'')]"]
    by (simp add: t1 t2 t3 l)
qed

section \<open>The explanation formatter\<close>

text \<open>
  C6, as stated, fails in its clause on conversion failure: a pm25 that does not convert
  gives the \<open>Unable\<close> text only when it is truthy. The empty string and \<open>None\<close> do not
  convert, but they are falsy, \<open>float\<close> is not called on them, and the summary ends
  with the \<open>moderate\<close> text.
\<close>

theorem explain_unconverted_counterexample:
  "py_float exact_ops (PStr '''') = Inl ValueError
   \<and> explain exact_ops [(''pm25'', PStr '''')] [(''trend'', PStr ''stable'')]
     = [(''summary'',
           PStr (''Current PM2.5 is  '' @ [CHR 0xC2, CHR 0xB5] @ ''g/m3. Trend: stable. ''
                 @ ''Air quality is moderate; normal activities are OK.'')),
        (''confidence'', PFloat (7 / 10))]
   \<and> py_float exact_ops PNone = Inl TypeError
   \<and> explain exact_ops [(''pm25'', PNone)] [(''trend'', PStr ''stable'')]
     = [(''summary'',
           PStr (''Current PM2.5 is None '' @ [CHR 0xC2, CHR 0xB5] @ ''g/m3. Trend: stable. ''
                 @ ''Air quality is moderate; normal activities are OK.'')),
        (''confidence'', PFloat (7 / 10))]"
  by code_simp

text \<open>
  C6, amended. For every reading and analysis the summary is the template
  \<open>Current PM2.5 is {pm25} \<mu>g/m3. Trend: {trend}. \<close> followed by one text: for a truthy
  pm25 that converts to a number, the \<open>poor\<close> warning when the number is above 100 and
  the \<open>moderate\<close> text otherwise; for a truthy pm25 whose conversion fails,
  \<open>Unable to fully assess air quality.\<close>; for a falsy pm25, which is never converted,
  the \<open>moderate\<close> text. The confidence is the analysis confidence, and 0.7 when the
  analysis has none.
\<close>

theorem explain_template_and_branches:
  "explain ops dp an =
     [(''summary'',
         PStr (''Current PM2.5 is '' @ format ops (dict_get dp ''pm25'') @ '' ''
               @ [CHR 0xC2, CHR 0xB5] @ ''g/m3. Trend: '' @ format ops (dict_get an ''trend'')
               @ ''. ''
               @ (if py_truthy ops (dict_get dp ''pm25'')
                  then (case py_float ops (dict_get dp ''pm25'') of
                          Inr x \<Rightarrow>
                            if fgt_int ops x 100
                            then ''Air quality is poor '' @ [CHR 0xE2, CHR 0x80, CHR 0x94]
                                 @ '' avoid strenuous outdoor activity. ''
                                 @ ''If you have respiratory issues, use a mask.''
                            else ''Air quality is moderate; normal activities are OK.''
                        | Inl e \<Rightarrow> ''Unable to fully assess air quality.'')
                  else ''Air quality is moderate; normal activities are OK.''))),
      (''confidence'',
         (case map_of an ''confidence'' of
            None \<Rightarrow> PFloat (float_lit ops (7 / 10))
          | Some c \<Rightarrow> c))]"
  by (simp add: explain_def summary_head_def dict_get_default_def Let_def micro_def emdash_def
        poor_text_def moderate_text_def unable_text_def split: sum.splits)

lemma exact_above_100_truthy:
  assumes "py_float exact_ops v = Inr x" and "fgt_int exact_ops x 100"
  shows "py_truthy exact_ops v"
  using assms
  by (cases v)
     (auto simp: exact_ops_def parse_decimal_def split: if_splits option.splits)

theorem explain_template_and_branches_witness:
  "explain exact_ops [(''pm25'', PInt 150)]
     [(''trend'', PStr ''rising''), (''confidence'', PFloat (9 / 10))]
     = [(''summary'',
           PStr (''Current PM2.5 is 150 '' @ [CHR 0xC2, CHR 0xB5] @ ''g/m3. Trend: rising. ''
                 @ ''Air quality is poor '' @ [CHR 0xE2, CHR 0x80, CHR 0x94]
                 @ '' avoid strenuous outdoor activity. ''
                 @ ''If you have respiratory issues, use a mask.'')),
        (''confidence'', PFloat (9 / 10))]
   \<and> explain exact_ops [(''pm25'', PFloat 50)] [(''trend'', PStr ''stable'')]
     = [(''summary'',
           PStr (''Current PM2.5 is 50.0 '' @ [CHR 0xC2, CHR 0xB5] @ ''g/m3. Trend: stable. ''
                 @ ''Air quality is moderate; normal activities are OK.'')),
        (''confidence'', PFloat (7 / 10))]
   \<and> explain exact_ops [(''pm25'', PStr ''n/a'')] [(''error'', PStr ''analysis_error'')]
     = [(''summary'',
           PStr (''Current PM2.5 is n/a '' @ [CHR 0xC2, CHR 0xB5] @ ''g/m3. Trend: None. ''
                 @ ''Unable to fully assess air quality.'')),
        (''confidence'', PFloat (7 / 10))]"
proof -
  have a: "py_truthy exact_ops (dict_get [(''pm25'', PInt 150)] ''pm25'')"
    "py_float exact_ops (dict_get [(''pm25'', PInt 150)] ''pm25'') = Inr 150"
    "fgt_int exact_ops 150 100"
    "format exact_ops (dict_get [(''pm25'', PInt 150)] ''pm25'') = ''150''"
    "format exact_ops
       (dict_get [(''trend'', PStr ''rising''), (''confidence'', PFloat (9 / 10))] ''trend'')
     = ''rising''"
    by code_simp+
  have b: "py_truthy exact_ops (dict_get [(''pm25'', PFloat 50)] ''pm25'')"
    "py_float exact_ops (dict_get [(''pm25'', PFloat 50)] ''pm25'') = Inr 50"
    "\<not> fgt_int exact_ops 50 100"
    "format exact_ops (dict_get [(''pm25'', PFloat 50)] ''pm25'') = ''50.0''"
    "format exact_ops (dict_get [(''trend'', PStr ''stable'')] ''trend'') = ''stable''"
    by code_simp+
  have c: "py_truthy exact_ops (dict_get [(''pm25'', PStr ''n/a'')] ''pm25'')"
    "py_float exact_ops (dict_get [(''pm25'', PStr ''n/a'')] ''pm25'') = Inl ValueError"
    "format exact_ops (dict_get [(''pm25'', PStr ''n/a'')] ''pm25'') = ''n/a''"
    "format exact_ops (dict_get [(''error'', PStr ''analysis_error'')] ''trend'') = ''None''"
    by code_simp+
  have l: "float_lit exact_ops q = q" for q
    by (simp add: exact_ops_def)
  show ?thesis
    using explain_template_and_branches
        [of exact_ops "[(''pm25'', PInt 150)]"
            "[(''trend'', PStr ''rising''), (''confidence'', PFloat (9 / 10))]"]
      explain_template_and_branches
        [of exact_ops "[(''pm25'', PFloat 50)]" "[(''trend'', PStr ''stable'')]"]
      explain_template_and_branches
        [of exact_ops "[(''pm25'', PStr ''n/a'')]" "[(''error'', PStr ''analysis_error'')]"]
    by (simp add: a b c l)
qed

lemma unable_not_suffix:
  "\<not> suffix ''Unable to fully assess air quality.''
       (h @ ''Air quality is moderate; normal activities are OK.'')"
proof
  assume "suffix ''Unable to fully assess air quality.''
            (h @ ''Air quality is moderate; normal activities are OK.'')"
  then have "suffix ''Unable to fully assess air quality.''
               ''Air quality is moderate; normal activities are OK.''
             \<or> (\<exists>xs. ''Unable to fully assess air quality.''
                        = xs @ ''Air quality is moderate; normal activities are OK.'')"
    by (auto simp only: suffix_append)
  moreover have "\<not> suffix ''Unable to fully assess air quality.''
                     ''Air quality is moderate; normal activities are OK.''"
    by code_simp
  moreover have "''Unable to fully assess air quality.''
                   \<noteq> xs @ ''Air quality is moderate; normal activities are OK.''" for xs
  proof
    assume "''Unable to fully assess air quality.''
              = xs @ ''Air quality is moderate; normal activities are OK.''"
    then have "length ''Unable to fully assess air quality.''
                 = length (xs @ ''Air quality is moderate; normal activities are OK.'')"
      by (rule arg_cong)
    then show False by simp
  qed
  ultimately show False by blast
qed

text \<open>
  C9. For every reading whose pm25 is absent, \<open>None\<close>, the integer 0, a float zero or
  the empty string, the summary is the template followed by
  \<open>Air quality is moderate; normal activities are OK.\<close>, so it contains that text and
  does not end in \<open>Unable to fully assess air quality.\<close>: the value is falsy and
  \<open>float\<close> is not called. The statement holds for every implementation of the
  conversions, those that reject these values included.
\<close>

theorem explain_falsy_is_moderate:
  assumes "map_of dp ''pm25'' = None \<or> map_of dp ''pm25'' = Some PNone
           \<or> map_of dp ''pm25'' = Some (PInt 0) \<or> map_of dp ''pm25'' = Some (PStr '''')
           \<or> (\<exists>x. map_of dp ''pm25'' = Some (PFloat x) \<and> \<not> float_truthy ops x)"
  shows "explain ops dp an =
           [(''summary'',
               PStr (''Current PM2.5 is '' @ format ops (dict_get dp ''pm25'') @ '' ''
                     @ [CHR 0xC2, CHR 0xB5] @ ''g/m3. Trend: ''
                     @ format ops (dict_get an ''trend'') @ ''. ''
                     @ ''Air quality is moderate; normal activities are OK.'')),
            (''confidence'',
               (case map_of an ''confidence'' of
                  None \<Rightarrow> PFloat (float_lit ops (7 / 10))
                | Some c \<Rightarrow> c))]
         \<and> (\<exists>s. map_of (explain ops dp an) ''summary'' = Some (PStr s)
                \<and> sublist ''Air quality is moderate; normal activities are OK.'' s
                \<and> \<not> suffix ''Unable to fully assess air quality.'' s)"
proof -
  define h where
    "h = ''Current PM2.5 is '' @ format ops (dict_get dp ''pm25'') @ '' ''
           @ [CHR 0xC2, CHR 0xB5] @ ''g/m3. Trend: '' @ format ops (dict_get an ''trend'')
           @ ''. ''"
  have falsy: "\<not> py_truthy ops (dict_get dp ''pm25'')"
    using assms by (auto simp: dict_get_def)
  have eq: "explain ops dp an =
              [(''summary'', PStr (h @ ''Air quality is moderate; normal activities are OK.'')),
               (''confidence'',
                  (case map_of an ''confidence'' of
                     None \<Rightarrow> PFloat (float_lit ops (7 / 10))
                   | Some c \<Rightarrow> c))]"
    using falsy
    by (simp add: h_def explain_def summary_head_def dict_get_default_def Let_def micro_def
          moderate_text_def)
  have "sublist ''Air quality is moderate; normal activities are OK.''
          (h @ ''Air quality is moderate; normal activities are OK.'')"
    by (rule sublist_append_leftI)
  then have "\<exists>s. map_of (explain ops dp an) ''summary'' = Some (PStr s)
               \<and> sublist ''Air quality is moderate; normal activities are OK.'' s
               \<and> \<not> suffix ''Unable to fully assess air quality.'' s"
    using unable_not_suffix [of h] by (simp add: eq)
  moreover have "explain ops dp an =
           [(''summary'',
               PStr (''Current PM2.5 is '' @ format ops (dict_get dp ''pm25'') @ '' ''
                     @ [CHR 0xC2, CHR 0xB5] @ ''g/m3. Trend: ''
                     @ format ops (dict_get an ''trend'') @ ''. ''
                     @ ''Air quality is moderate; normal activities are OK.'')),
            (''confidence'',
               (case map_of an ''confidence'' of
                  None \<Rightarrow> PFloat (float_lit ops (7 / 10))
                | Some c \<Rightarrow> c))]"
    using eq by (simp add: h_def)
  ultimately show ?thesis by blast
qed

theorem explain_falsy_is_moderate_witness:
  "py_float exact_ops (PStr '''') = Inl ValueError
   \<and> explain exact_ops [(''pm25'', PStr ''''), (''pm10'', PStr ''40'')] [(''trend'', PStr ''stable'')]
     = [(''summary'',
           PStr (''Current PM2.5 is  '' @ [CHR 0xC2, CHR 0xB5] @ ''g/m3. Trend: stable. ''
                 @ ''Air quality is moderate; normal activities are OK.'')),
        (''confidence'', PFloat (7 / 10))]
   \<and> py_float exact_ops PNone = Inl TypeError
   \<and> explain exact_ops [(''pm25'', PNone)] [(''trend'', PStr ''stable'')]
     = [(''summary'',
           PStr (''Current PM2.5 is None '' @ [CHR 0xC2, CHR 0xB5] @ ''g/m3. Trend: stable. ''
                 @ ''Air quality is moderate; normal activities are OK.'')),
        (''confidence'', PFloat (7 / 10))]
   \<and> explain exact_ops [(''pm25'', PInt 0)] [(''trend'', PStr ''stable'')]
     = [(''summary'',
           PStr (''Current PM2.5 is 0 '' @ [CHR 0xC2, CHR 0xB5] @ ''g/m3. Trend: stable. ''
                 @ ''Air quality is moderate; normal activities are OK.'')),
        (''confidence'', PFloat (7 / 10))]
   \<and> explain exact_ops [(''pm25'', PFloat 0)] [(''trend'', PStr ''stable'')]
     = [(''summary'',
           PStr (''Current PM2.5 is 0.0 '' @ [CHR 0xC2, CHR 0xB5] @ ''g/m3. Trend: stable. ''
                 @ ''Air quality is moderate; normal activities are OK.'')),
        (''confidence'', PFloat (7 / 10))]
   \<and> explain exact_ops [(''error'', PStr ''no data available'')] [(''trend'', PStr ''stable'')]
     = [(''summary'',
           PStr (''Current PM2.5 is None '' @ [CHR 0xC2, CHR 0xB5] @ ''g/m3. Trend: stable. ''
                 @ ''Air quality is moderate; normal activities are OK.'')),
        (''confidence'', PFloat (7 / 10))]"
proof -
  have h1: "map_of [(''pm25'', PStr ''''), (''pm10'', PStr ''40'')] ''pm25'' = None
            \<or> map_of [(''pm25'', PStr ''''), (''pm10'', PStr ''40'')] ''pm25'' = Some PNone
            \<or> map_of [(''pm25'', PStr ''''), (''pm10'', PStr ''40'')] ''pm25'' = Some (PInt 0)
            \<or> map_of [(''pm25'', PStr ''''), (''pm10'', PStr ''40'')] ''pm25''
                = Some (PStr '''')
            \<or> (\<exists>x. map_of [(''pm25'', PStr ''''), (''pm10'', PStr ''40'')] ''pm25''
                       = Some (PFloat x) \<and> \<not> float_truthy exact_ops x)"
    by simp
  have h2: "map_of [(''pm25'', PNone)] ''pm25'' = None
            \<or> map_of [(''pm25'', PNone)] ''pm25'' = Some PNone
            \<or> map_of [(''pm25'', PNone)] ''pm25'' = Some (PInt 0)
            \<or> map_of [(''pm25'', PNone)] ''pm25'' = Some (PStr '''')
            \<or> (\<exists>x. map_of [(''pm25'', PNone)] ''pm25'' = Some (PFloat x)
                     \<and> \<not> float_truthy exact_ops x)"
    by simp
  have h3: "map_of [(''pm25'', PInt 0)] ''pm25'' = None
            \<or> map_of [(''pm25'', PInt 0)] ''pm25'' = Some PNone
            \<or> map_of [(''pm25'', PInt 0)] ''pm25'' = Some (PInt 0)
            \<or> map_of [(''pm25'', PInt 0)] ''pm25'' = Some (PStr '''')
            \<or> (\<exists>x. map_of [(''pm25'', PInt 0)] ''pm25'' = Some (PFloat x)
                     \<and> \<not> float_truthy exact_ops x)"
    by simp
  have h4: "map_of [(''pm25'', PFloat 0)] ''pm25'' = None
            \<or> map_of [(''pm25'', PFloat 0)] ''pm25'' = Some PNone
            \<or> map_of [(''pm25'', PFloat 0)] ''pm25'' = Some (PInt 0)
            \<or> map_of [(''pm25'', PFloat 0)] ''pm25'' = Some (PStr '''')
            \<or> (\<exists>x. map_of [(''pm25'', PFloat 0)] ''pm25'' = Some (PFloat x)
                     \<and> \<not> float_truthy exact_ops x)"
    by (simp add: exact_ops_def)
  have h5: "map_of [(''error'', PStr ''no data available'')] ''pm25'' = None
            \<or> map_of [(''error'', PStr ''no data available'')] ''pm25'' = Some PNone
            \<or> map_of [(''error'', PStr ''no data available'')] ''pm25'' = Some (PInt 0)
            \<or> map_of [(''error'', PStr ''no data available'')] ''pm25'' = Some (PStr '''')
            \<or> (\<exists>x. map_of [(''error'', PStr ''no data available'')] ''pm25''
                       = Some (PFloat x) \<and> \<not> float_truthy exact_ops x)"
    by simp
  have f: "py_float exact_ops (PStr '''') = Inl ValueError"
    "py_float exact_ops PNone = Inl TypeError"
    by code_simp+
  have s: "format exact_ops (dict_get [(''pm25'', PStr ''''), (''pm10'', PStr ''40'')] ''pm25'')
             = ''''"
    "format exact_ops (dict_get [(''pm25'', PNone)] ''pm25'') = ''None''"
    "format exact_ops (dict_get [(''pm25'', PInt 0)] ''pm25'') = ''0''"
    "format exact_ops (dict_get [(''pm25'', PFloat 0)] ''pm25'') = ''0.0''"
    "format exact_ops (dict_get [(''error'', PStr ''no data available'')] ''pm25'') = ''None''"
    "format exact_ops (dict_get [(''trend'', PStr ''stable'')] ''trend'') = ''stable''"
    by code_simp+
  have l: "float_lit exact_ops q = q" for q
    by (simp add: exact_ops_def)
  show ?thesis
    using explain_falsy_is_moderate [OF h1, of "[(''trend'', PStr ''stable'')]"]
      explain_falsy_is_moderate [OF h2, of "[(''trend'', PStr ''stable'')]"]
      explain_falsy_is_moderate [OF h3, of "[(''trend'', PStr ''stable'')]"]
      explain_falsy_is_moderate [OF h4, of "[(''trend'', PStr ''stable'')]"]
      explain_falsy_is_moderate [OF h5, of "[(''trend'', PStr ''stable'')]"]
    by (simp only: s f l) simp
qed

section \<open>The advisory generator\<close>




section \<open>The scenario of main\<close>

text \<open>
  The run of \<open>main\<close> for Chennai with the search stub, a file without rows for
  Chennai and no asthma flag: the reading comes from the search snippet, the history is
  empty, and 86 is not above 100.
\<close>

lemma main_scenario_fetch:
  "fetch exact_ops (tools_with (GoogleSearchTool_run ''2025-11-03T06:00:00'') (Readable []))
     ''2025-11-03T06:00:01'' ''Chennai''
   = Inr [(''pm25'', PFloat 86), (''pm10'', PFloat 150), (''aqi'', PInt 128),
          (''source'', PStr ''google_search''), (''timestamp'', PStr ''2025-11-03T06:00:00'')]"
  by code_simp

lemma main_scenario_analysis:
  "analyze exact_ops
     [(''pm25'', PFloat 86), (''pm10'', PFloat 150), (''aqi'', PInt 128),
      (''source'', PStr ''google_search''), (''timestamp'', PStr ''2025-11-03T06:00:00'')]
     (Some [])
   = [(''trend'', PStr ''stable''), (''anomaly'', PBool False), (''confidence'', PFloat (8 / 10))]"
  by code_simp

lemma main_scenario_explanation:
  "explain exact_ops
     [(''pm25'', PFloat 86), (''pm10'', PFloat 150), (''aqi'', PInt 128),
      (''source'', PStr ''google_search''), (''timestamp'', PStr ''2025-11-03T06:00:00'')]
     [(''trend'', PStr ''stable''), (''anomaly'', PBool False), (''confidence'', PFloat (8 / 10))]
   = [(''summary'',
         PStr (''Current PM2.5 is 86.0 '' @ micro @ ''g/m3. Trend: stable. '' @ moderate_text)),
      (''confidence'', PFloat (8 / 10))]"
  by code_simp

lemma main_scenario_advice:
  "advise exact_ops
     [(''summary'',
         PStr (''Current PM2.5 is 86.0 '' @ micro @ ''g/m3. Trend: stable. '' @ moderate_text)),
      (''confidence'', PFloat (8 / 10))]
     (Some [(''asthma'', PBool False)])
   = Inr [(''advice'', PList [PStr ''Good day for outdoor activities.''])]"
  by code_simp

end
